theory Spec2Isabelle
  imports Main "HOL-Library.Word"
begin

section \<open>Errors (package errors)\<close>

text \<open>
  Go's \<open>error\<close> interface is modelled as a datatype with one constructor per concrete
  error type that this repository creates or inspects, and a value of type
  \<open>err option\<close> stands for a Go \<open>error\<close> (\<open>None\<close> is \<open>nil\<close>).

  \<^item> \<open>HTTPError StatusCode Status Body URL\<close> is \<open>*errors.HTTPError\<close>;
  \<^item> \<open>JSONRPCErr e\<close> is \<open>*errors.JSONRPCError\<close>;
  \<^item> \<open>APIError Type Message Details\<close> is \<open>*errors.APIError\<close>;
  \<^item> \<open>AlchemyError code message cause\<close> is \<open>*errors.AlchemyError\<close>, the only error
    type of the repository whose \<open>Unwrap\<close> can return a non-nil error;
  \<^item> \<open>ErrRateLimited\<close>, \<open>ErrContextCanceled\<close>, \<open>ErrContextDeadline\<close> are the sentinel
    values of the same name;
  \<^item> \<open>stopRetry e\<close> is \<open>*client.stopRetry\<close>, which has no \<open>Unwrap\<close> method;
  \<^item> \<open>OtherError msg\<close> is any other error value (made by \<open>fmt.Errorf\<close> without
    \<open>%w\<close>, or by the standard library), whose chain holds none of the above;
  \<^item> \<open>RuntimePanic msg\<close> stands for a run-time panic of the Go program.
\<close>

record JSONRPCError =
  Code :: int
  Message :: string
  Data :: string

datatype err =
    HTTPError int string string string
  | JSONRPCErr JSONRPCError
  | APIError string string string
  | AlchemyError string string "err option"
  | ErrRateLimited
  | ErrContextCanceled
  | ErrContextDeadline
  | stopRetry err
  | OtherError string
  | RuntimePanic string

definition Wrap :: "err \<Rightarrow> string \<Rightarrow> string \<Rightarrow> err" where
  "Wrap e code message = AlchemyError code message (Some e)"

definition NewHTTPError :: "int \<Rightarrow> string \<Rightarrow> string \<Rightarrow> err" where
  "NewHTTPError statusCode status body = HTTPError statusCode status body []"

text \<open>
  \<open>errors.As(err, &httpErr)\<close> for a target of type \<open>*HTTPError\<close>: walk the \<open>Unwrap\<close>
  chain and return the status code of the first \<open>HTTPError\<close> found.
\<close>

fun errors_As_HTTPError :: "err \<Rightarrow> int option" where
  "errors_As_HTTPError (HTTPError sc st b u) = Some sc"
| "errors_As_HTTPError (AlchemyError c m (Some e)) = errors_As_HTTPError e"
| "errors_As_HTTPError _ = None"

text \<open>\<open>errors.Is(err, target)\<close> for a sentinel target: identity along the \<open>Unwrap\<close> chain.\<close>

fun errors_Is :: "err \<Rightarrow> err \<Rightarrow> bool" where
  "errors_Is (AlchemyError c m (Some e)) target =
     (AlchemyError c m (Some e) = target \<or> errors_Is e target)"
| "errors_Is e target = (e = target)"

text \<open>\<open>(*HTTPError).IsRetryable\<close>, on the status code of the error.\<close>

definition HTTPError_IsRetryable :: "int \<Rightarrow> bool" where
  "HTTPError_IsRetryable StatusCode =
     (if StatusCode = 429 then True
      else if StatusCode \<ge> 500 \<and> StatusCode < 600 then True
      else if StatusCode = 408 then True
      else False)"

definition ParseError :: int where "ParseError = - 32700"
definition InvalidRequest :: int where "InvalidRequest = - 32600"
definition MethodNotFound :: int where "MethodNotFound = - 32601"
definition InvalidParams :: int where "InvalidParams = - 32602"
definition InternalError :: int where "InternalError = - 32603"
definition ServerErrorStart :: int where "ServerErrorStart = - 32099"
definition ServerErrorEnd :: int where "ServerErrorEnd = - 32000"

definition IsInternalError :: "JSONRPCError \<Rightarrow> bool" where
  "IsInternalError e = (Code e = InternalError)"

definition IsServerError :: "JSONRPCError \<Rightarrow> bool" where
  "IsServerError e = (Code e \<ge> ServerErrorStart \<and> Code e \<le> ServerErrorEnd)"

text \<open>\<open>(*JSONRPCError).IsRetryable\<close>.\<close>

definition JSONRPCError_IsRetryable :: "JSONRPCError \<Rightarrow> bool" where
  "JSONRPCError_IsRetryable e =
     (if IsServerError e \<or> IsInternalError e then True else False)"

text \<open>\<open>errors.IsRetryable\<close>, the classifier that the retry loop consults.\<close>

definition IsRetryable :: "err option \<Rightarrow> bool" where
  "IsRetryable err =
     (case err of
        None \<Rightarrow> False
      | Some e \<Rightarrow>
          (case errors_As_HTTPError e of
             Some StatusCode \<Rightarrow> HTTPError_IsRetryable StatusCode
           | None \<Rightarrow>
               if errors_Is e ErrRateLimited then True
               else if errors_Is e ErrContextCanceled \<or> errors_Is e ErrContextDeadline
               then False
               else False))"


section \<open>The retry loop (client.Retrier)\<close>

text \<open>
  A \<open>context.Context\<close> is observed by the retry loop at two places: \<open>ctx.Err()\<close> before
  attempt \<open>n\<close>, and the \<open>select\<close> between \<open>ctx.Done()\<close> and the backoff timer after a
  failed attempt \<open>n\<close>. Both observations are oracles of the context, indexed by the
  attempt; \<open>Live\<close> means that \<open>ctx.Err()\<close> is nil, respectively that the timer fired first.
\<close>

datatype ctx_status = Live | Canceled | DeadlineExceeded

record Context =
  ctx_Err :: "int \<Rightarrow> ctx_status"
  ctx_Done :: "int \<Rightarrow> ctx_status"

text \<open>
  The \<open>Retrier\<close>. Its fields \<open>Multiplier\<close> and \<open>Jitter\<close> (float64) only determine how
  long the loop sleeps between attempts, which is the oracle \<open>ctx_Done\<close> here;
  durations are nanoseconds.
\<close>

record Retrier =
  MaxRetries :: int
  InitialDelay :: int
  MaxDelay :: int

definition ShouldRetry :: "Retrier \<Rightarrow> err \<Rightarrow> bool" where
  "ShouldRetry r e = IsRetryable (Some e)"

text \<open>The type assertion \<open>err.(*stopRetry)\<close>.\<close>

fun as_stopRetry :: "err \<Rightarrow> err option" where
  "as_stopRetry (stopRetry e) = Some e"
| "as_stopRetry _ = None"

text \<open>
  \<open>(*Retrier).Do\<close>: the loop \<open>for attempt := 0; attempt <= r.MaxRetries; attempt++\<close>, with
  the state \<open>s\<close> that the closure \<open>fn\<close> reads and writes passed explicitly.
\<close>

function Retrier_loop ::
  "Retrier \<Rightarrow> Context \<Rightarrow> ('s \<Rightarrow> err option \<times> 's) \<Rightarrow> int \<Rightarrow> err option \<Rightarrow> 's
     \<Rightarrow> err option \<times> 's" where
  "Retrier_loop r ctx fn attempt lastErr s =
     (if attempt \<le> MaxRetries r then
        (case ctx_Err ctx attempt of
           Canceled \<Rightarrow> (Some ErrContextCanceled, s)
         | DeadlineExceeded \<Rightarrow> (Some ErrContextDeadline, s)
         | Live \<Rightarrow>
             (case fn s of
                (None, s') \<Rightarrow> (None, s')
              | (Some e, s') \<Rightarrow>
                  if as_stopRetry e \<noteq> None then (Some e, s')
                  else if \<not> ShouldRetry r e then (Some e, s')
                  else if attempt = MaxRetries r then (Some e, s')
                  else
                    (case ctx_Done ctx attempt of
                       Canceled \<Rightarrow> (Some ErrContextCanceled, s')
                     | DeadlineExceeded \<Rightarrow> (Some ErrContextDeadline, s')
                     | Live \<Rightarrow> Retrier_loop r ctx fn (attempt + 1) (Some e) s')))
      else (lastErr, s))"
  by pat_completeness auto
termination
  by (relation "measure (\<lambda>(r, ctx, fn, attempt, lastErr, s). nat (MaxRetries r + 1 - attempt))")
     auto

declare Retrier_loop.simps [simp del]

definition Retrier_Do ::
  "Retrier \<Rightarrow> Context \<Rightarrow> ('s \<Rightarrow> err option \<times> 's) \<Rightarrow> 's \<Rightarrow> err option \<times> 's" where
  "Retrier_Do r ctx fn s = Retrier_loop r ctx fn 0 None s"

section \<open>The HTTP client (client.HTTPClient)\<close>

text \<open>
  An \<open>*http.Response\<close>: status code, status text, and what \<open>io.ReadAll(resp.Body)\<close>
  returns (the bytes read, and the error that ended the read, if any).
\<close>

record Response =
  StatusCode :: int
  Status :: string
  Body :: string
  ReadErr :: "err option"

record Request =
  Method :: string
  URL :: string
  ReqBody :: "string option"
  Header :: "string \<rightharpoonup> string"

text \<open>
  A \<open>Handler\<close> runs one request against the outside world \<open>'w\<close> and returns either an
  error or a response (the contract of \<open>http.Client.Do\<close>: exactly one of the two is
  non-nil), together with the world after the exchange. A middleware wraps a handler.
\<close>

type_synonym 'w Handler = "Context \<Rightarrow> Request \<Rightarrow> 'w \<Rightarrow> (err + Response) \<times> 'w"

record 'w HTTPClient =
  baseURL :: string
  apiKey :: string
  httpClient :: "'w Handler"
  middlewares :: "('w Handler \<Rightarrow> 'w Handler) list"
  retrier :: Retrier

text \<open>The world after one exchange through a handler.\<close>

definition exchange :: "'w Handler \<Rightarrow> Context \<Rightarrow> Request \<Rightarrow> 'w \<Rightarrow> 'w" where
  "exchange h ctx req w = snd (h ctx req w)"

definition doRequest :: "'w HTTPClient \<Rightarrow> 'w Handler" where
  "doRequest c ctx req = httpClient c ctx req"

text \<open>
  The handler chain of \<open>Do\<close>: \<open>for i := len(c.middlewares) - 1; i >= 0; i--\<close> wraps from
  the last middleware to the first.
\<close>

definition handler_chain :: "'w HTTPClient \<Rightarrow> 'w Handler" where
  "handler_chain c = foldr (\<lambda>m handler. m handler) (middlewares c) (doRequest c)"

text \<open>
  The closure that \<open>Do\<close> passes to the retrier. It captures the variables \<open>resp\<close> and
  \<open>lastErr\<close> of \<open>Do\<close>; they and the world are its state.
\<close>

definition Do_fn ::
  "'w Handler \<Rightarrow> Context \<Rightarrow> Request \<Rightarrow> Response option \<times> err option \<times> 'w
     \<Rightarrow> err option \<times> (Response option \<times> err option \<times> 'w)" where
  "Do_fn handler ctx req st =
     (case st of (resp, lastErr, w) \<Rightarrow>
        (case handler ctx req w of
           (Inl e, w') \<Rightarrow>
             if IsRetryable (Some e) then (Some e, (None, Some e, w'))
             else (Some (stopRetry e), (None, Some e, w'))
         | (Inr r, w') \<Rightarrow>
             if StatusCode r = 429 \<or> StatusCode r \<ge> 500 then
               (let e = NewHTTPError (StatusCode r) (Status r) (Body r)
                in (Some e, (Some r, Some e, w')))
             else (None, (Some r, lastErr, w'))))"

text \<open>\<open>(*HTTPClient).Do\<close>; the result is the Go pair \<open>(*http.Response, error)\<close>.\<close>

definition Do ::
  "'w HTTPClient \<Rightarrow> Context \<Rightarrow> Request \<Rightarrow> 'w \<Rightarrow> (Response option \<times> err option) \<times> 'w" where
  "Do c ctx req w =
     (case Retrier_Do (retrier c) ctx (Do_fn (handler_chain c) ctx req) (None, None, w) of
        (Some e, (resp, lastErr, w')) \<Rightarrow>
          (case as_stopRetry e of
             Some e' \<Rightarrow> ((None, Some e'), w')
           | None \<Rightarrow>
               (case lastErr of
                  Some le \<Rightarrow> ((None, Some le), w')
                | None \<Rightarrow> ((None, Some e), w')))
      | (None, (resp, lastErr, w')) \<Rightarrow> ((resp, None), w'))"

text \<open>
  The library calls that \<open>Post\<close> and the JSON-RPC client make and that can fail are
  parameters: \<open>json.Marshal\<close> of the request body, \<open>http.NewRequestWithContext\<close>
  (method, URL, body), and \<open>json.Unmarshal\<close> into a response envelope, into a list of
  batch envelopes (\<open>BatchCallResponse\<close> has the fields of \<open>JSONRPCResponse\<close>), and
  of a result payload into a caller's target of type \<open>'t\<close>, which returns the error,
  if any, and the target as the call leaves it. The parameters of a call are kept as
  their JSON texts.
\<close>

record JSONRPCRequest =
  JSONRPC :: string
  rpc_Method :: string
  Params :: "string list"
  ID :: "64 word"

record JSONRPCResponse =
  resp_JSONRPC :: string
  resp_ID :: "64 word"
  resp_Result :: string
  resp_Error :: "JSONRPCError option"

datatype body = Single JSONRPCRequest | Batch "JSONRPCRequest list"

record 't lib =
  json_Marshal :: "body \<Rightarrow> err + string"
  http_NewRequestWithContext :: "string \<Rightarrow> string \<Rightarrow> string option \<Rightarrow> err + Request"
  json_Unmarshal_response :: "string \<Rightarrow> err + JSONRPCResponse"
  json_Unmarshal_batch :: "string \<Rightarrow> err + JSONRPCResponse list"
  json_Unmarshal_result :: "string \<Rightarrow> 't \<Rightarrow> err option \<times> 't"

definition request_url :: "'w HTTPClient \<Rightarrow> string \<Rightarrow> string" where
  "request_url c path =
     (let url = baseURL c @ ''/'' @ apiKey c
      in if path \<noteq> [] then url @ ''/'' @ path else url)"

text \<open>
  What \<open>Post\<close>, \<open>Get\<close> and \<open>GetWithQuery\<close> do with the outcome of \<open>Do\<close>. When \<open>Do\<close>
  returns neither a response nor an error, \<open>resp.Body\<close> dereferences nil.
\<close>

definition read_response ::
  "(Response option \<times> err option) \<times> 'w \<Rightarrow> (err + string) \<times> 'w" where
  "read_response out =
     (case out of
        ((resp, Some e), w') \<Rightarrow> (Inl e, w')
      | ((None, None), w') \<Rightarrow> (Inl (RuntimePanic ''nil pointer dereference''), w')
      | ((Some resp, None), w') \<Rightarrow>
          (case ReadErr resp of
             Some e \<Rightarrow> (Inl (Wrap e ''READ_ERROR'' ''failed to read response body''), w')
           | None \<Rightarrow>
               if StatusCode resp < 200 \<or> StatusCode resp \<ge> 300
               then (Inl (NewHTTPError (StatusCode resp) (Status resp) (Body resp)), w')
               else (Inr (Body resp), w')))"

definition Post ::
  "'w HTTPClient \<Rightarrow> 't lib \<Rightarrow> Context \<Rightarrow> string \<Rightarrow> body option \<Rightarrow> 'w \<Rightarrow> (err + string) \<times> 'w" where
  "Post c l ctx path body w =
     (case (case body of
              None \<Rightarrow> Inr None
            | Some b \<Rightarrow>
                (case json_Marshal l b of
                   Inl e \<Rightarrow> Inl (Wrap e ''MARSHAL_ERROR'' ''failed to marshal request body'')
                 | Inr data \<Rightarrow> Inr (Some data))) of
        Inl e \<Rightarrow> (Inl e, w)
      | Inr bodyReader \<Rightarrow>
          (case http_NewRequestWithContext l ''POST'' (request_url c path) bodyReader of
             Inl e \<Rightarrow> (Inl (Wrap e ''REQUEST_ERROR'' ''failed to create request''), w)
           | Inr req \<Rightarrow>
               read_response
                 (Do c ctx
                    (req\<lparr>Header := (Header req)(''Content-Type'' \<mapsto> ''application/json'',
                                               ''Accept'' \<mapsto> ''application/json'')\<rparr>)
                    w)))"

definition Get ::
  "'w HTTPClient \<Rightarrow> 't lib \<Rightarrow> Context \<Rightarrow> string \<Rightarrow> 'w \<Rightarrow> (err + string) \<times> 'w" where
  "Get c l ctx path w =
     (case http_NewRequestWithContext l ''GET'' (request_url c path) None of
        Inl e \<Rightarrow> (Inl (Wrap e ''REQUEST_ERROR'' ''failed to create request''), w)
      | Inr req \<Rightarrow>
          read_response
            (Do c ctx (req\<lparr>Header := (Header req)(''Accept'' \<mapsto> ''application/json'')\<rparr>) w))"


section \<open>The JSON-RPC client (client.JSONRPCClient)\<close>

text \<open>
  \<open>NextRequestID\<close> increments the global counter \<open>requestIDCounter\<close> (uint64) and
  returns the new value; the counter is passed explicitly.
\<close>

definition NextRequestID :: "64 word \<Rightarrow> 64 word \<times> 64 word" where
  "NextRequestID requestIDCounter = (requestIDCounter + 1, requestIDCounter + 1)"

text \<open>
  \<open>(*JSONRPCClient).Call\<close>. \<open>result\<close> is the caller's decode target (\<open>None\<close> is nil);
  the function returns the error and the target after the call.
\<close>

definition Call ::
  "'w HTTPClient \<Rightarrow> 't lib \<Rightarrow> Context \<Rightarrow> string \<Rightarrow> string list \<Rightarrow> 't option \<Rightarrow> 64 word \<times> 'w
     \<Rightarrow> (err option \<times> 't option) \<times> (64 word \<times> 'w)" where
  "Call c l ctx method params result st =
     (case st of (counter, w) \<Rightarrow>
        (case NextRequestID counter of (rid, counter') \<Rightarrow>
           (let req = \<lparr>JSONRPC = ''2.0'', rpc_Method = method, Params = params, ID = rid\<rparr>
            in case Post c l ctx [] (Some (Single req)) w of
                 (Inl e, w') \<Rightarrow> ((Some e, result), (counter', w'))
               | (Inr respBody, w') \<Rightarrow>
                   (case json_Unmarshal_response l respBody of
                      Inl e \<Rightarrow>
                        ((Some (Wrap e ''UNMARSHAL_ERROR''
                                  ''failed to unmarshal JSON-RPC response''), result),
                         (counter', w'))
                    | Inr resp \<Rightarrow>
                        (case resp_Error resp of
                           Some e \<Rightarrow> ((Some (JSONRPCErr e), result), (counter', w'))
                         | None \<Rightarrow>
                             (case result of
                                None \<Rightarrow> ((None, None), (counter', w'))
                              | Some t \<Rightarrow>
                                  if length (resp_Result resp) > 0 then
                                    (case json_Unmarshal_result l (resp_Result resp) t of
                                       (Some e, t') \<Rightarrow>
                                         ((Some (Wrap e ''UNMARSHAL_ERROR''
                                                   ''failed to unmarshal result''), Some t'),
                                          (counter', w'))
                                     | (None, t') \<Rightarrow> ((None, Some t'), (counter', w')))
                                  else ((None, Some t), (counter', w'))))))))"

record 't BatchCall =
  bc_Method :: string
  bc_Params :: "string list"
  bc_Result :: "'t option"

record 't BatchResult =
  Error :: "err option"
  Result :: "'t option"

text \<open>The decimal digits of a number, as \<open>%d\<close> prints them.\<close>

function decimal :: "nat \<Rightarrow> string" where
  "decimal n =
     (if n < 10 then [char_of (48 + n)] else decimal (n div 10) @ [char_of (48 + n mod 10)])"
  by pat_completeness auto
termination
  by (relation "measure id") auto

text \<open>The batch request: call \<open>i\<close> gets the id \<open>uint64(i + 1)\<close>.\<close>

definition batch_requests :: "'t BatchCall list \<Rightarrow> JSONRPCRequest list" where
  "batch_requests calls =
     map (\<lambda>(i, call). \<lparr>JSONRPC = ''2.0'', rpc_Method = bc_Method call,
                        Params = bc_Params call, ID = of_nat (i + 1)\<rparr>)
         (enumerate 0 calls)"

text \<open>
  The map of responses by id: \<open>for i := range responses\<close> stores each envelope under
  its id, a later envelope replacing an earlier one with the same id.
\<close>

definition responseMap :: "JSONRPCResponse list \<Rightarrow> (64 word \<rightharpoonup> JSONRPCResponse)" where
  "responseMap responses = foldl (\<lambda>m r. m(resp_ID r \<mapsto> r)) Map.empty responses"

text \<open>The body of the loop that fills \<open>results[i]\<close> for call \<open>i\<close>.\<close>

definition batch_slot ::
  "'t lib \<Rightarrow> (64 word \<rightharpoonup> JSONRPCResponse) \<Rightarrow> nat \<Rightarrow> 't BatchCall \<Rightarrow> 't BatchResult" where
  "batch_slot l m i call =
     (case m (of_nat (i + 1)) of
        None \<Rightarrow>
          \<lparr>Error = Some (OtherError (''missing response for call '' @ decimal i)),
           Result = None\<rparr>
      | Some resp \<Rightarrow>
          (case resp_Error resp of
             Some e \<Rightarrow> \<lparr>Error = Some (JSONRPCErr e), Result = None\<rparr>
           | None \<Rightarrow>
               (case bc_Result call of
                  None \<Rightarrow> \<lparr>Error = None, Result = None\<rparr>
                | Some t \<Rightarrow>
                    if length (resp_Result resp) > 0 then
                      (case json_Unmarshal_result l (resp_Result resp) t of
                         (Some e, t') \<Rightarrow>
                           \<lparr>Error = Some (Wrap e ''UNMARSHAL_ERROR''
                                            ''failed to unmarshal result''),
                            Result = None\<rparr>
                       | (None, t') \<Rightarrow> \<lparr>Error = None, Result = Some t'\<rparr>)
                    else \<lparr>Error = None, Result = None\<rparr>)))"

text \<open>
  \<open>(*JSONRPCClient).BatchCall\<close>; the result is the Go pair \<open>([]BatchResult, error)\<close>, a
  nil slice being the empty list.
\<close>

definition BatchCall ::
  "'w HTTPClient \<Rightarrow> 't lib \<Rightarrow> Context \<Rightarrow> 't BatchCall list \<Rightarrow> 'w
     \<Rightarrow> ('t BatchResult list \<times> err option) \<times> 'w" where
  "BatchCall c l ctx calls w =
     (if length calls = 0 then (([], None), w)
      else
        (case Post c l ctx [] (Some (Batch (batch_requests calls))) w of
           (Inl e, w') \<Rightarrow> (([], Some e), w')
         | (Inr respBody, w') \<Rightarrow>
             (case json_Unmarshal_batch l respBody of
                Inl e \<Rightarrow>
                  (([], Some (Wrap e ''UNMARSHAL_ERROR''
                               ''failed to unmarshal batch response'')), w')
              | Inr responses \<Rightarrow>
                  ((map (\<lambda>(i, call). batch_slot l (responseMap responses) i call)
                        (enumerate 0 calls), None), w'))))"

section \<open>The pagination iterator (data.AssetTransfersIterator)\<close>

record 'a AssetTransfersResponse =
  PageKey :: string
  Transfers :: "'a list"

definition HasMore :: "'a AssetTransfersResponse \<Rightarrow> bool" where
  "HasMore r = (PageKey r \<noteq> [])"

text \<open>
  The request parameters: the page key, and the other fields, which the iterator never
  reads or writes.
\<close>

record 'p AssetTransfersParams =
  params_PageKey :: string
  params_rest :: 'p

record ('a, 'p) AssetTransfersIterator =
  it_params :: "'p AssetTransfersParams"
  it_current :: "'a AssetTransfersResponse option"
  it_index :: nat
  it_done :: bool
  it_err :: "err option"

text \<open>
  \<open>(*Client).GetAssetTransfers\<close>, the endpoint that the iterator calls with its
  parameters, is a parameter of the iterator's operations: one call is one fetch, which
  returns an error or a page and changes the outside world \<open>'w\<close>.
\<close>

type_synonym ('a, 'p, 'w) endpoint =
  "'p AssetTransfersParams \<Rightarrow> 'w \<Rightarrow> (err + 'a AssetTransfersResponse) \<times> 'w"

text \<open>
  The endpoint of the code: \<open>GetAssetTransfers\<close> calls the JSON-RPC method
  \<open>alchemy_getAssetTransfers\<close> with the parameters (\<open>encode\<close> gives their JSON text)
  and a zero response as decode target, and returns the error or the target. Its world
  is the request id counter and the world of the HTTP client.
\<close>

definition GetAssetTransfers ::
  "'w HTTPClient \<Rightarrow> 'a AssetTransfersResponse lib \<Rightarrow> Context
     \<Rightarrow> ('p AssetTransfersParams \<Rightarrow> string) \<Rightarrow> ('a, 'p, 64 word \<times> 'w) endpoint" where
  "GetAssetTransfers c l ctx encode params st =
     (case Call c l ctx ''alchemy_getAssetTransfers'' [encode params]
             (Some \<lparr>PageKey = [], Transfers = []\<rparr>) st of
        ((Some e, result), st') \<Rightarrow> (Inl e, st')
      | ((None, result), st') \<Rightarrow>
          (Inr (case result of Some r \<Rightarrow> r | None \<Rightarrow> \<lparr>PageKey = [], Transfers = []\<rparr>), st'))"

text \<open>\<open>GetAssetTransfersIterator\<close>: a copy of the parameters, all other fields zero.\<close>

definition GetAssetTransfersIterator ::
  "('a, 'p, 'w) endpoint \<Rightarrow> 'p AssetTransfersParams \<Rightarrow> 'w
     \<Rightarrow> ('a, 'p) AssetTransfersIterator \<times> 'w" where
  "GetAssetTransfersIterator client params w =
     (\<lparr>it_params = params, it_current = None, it_index = 0, it_done = False,
       it_err = None\<rparr>, w)"

definition fetchNext ::
  "('a, 'p, 'w) endpoint \<Rightarrow> ('a, 'p) AssetTransfersIterator \<Rightarrow> 'w
     \<Rightarrow> err option \<times> ('a, 'p) AssetTransfersIterator \<times> 'w" where
  "fetchNext client it w =
     (case client (it_params it) w of
        (Inl e, w') \<Rightarrow> (Some e, it, w')
      | (Inr result, w') \<Rightarrow> (None, it\<lparr>it_current := Some result, it_index := 0\<rparr>, w'))"

text \<open>
  \<open>(*AssetTransfersIterator).Next\<close>; the result is the Go pair \<open>(*AssetTransfer, error)\<close>.
  A successful fetch always sets \<open>current\<close>; reading a nil \<open>current\<close> would panic.
\<close>

definition Next ::
  "('a, 'p, 'w) endpoint \<Rightarrow> ('a, 'p) AssetTransfersIterator \<Rightarrow> 'w
     \<Rightarrow> ('a option \<times> err option) \<times> ('a, 'p) AssetTransfersIterator \<times> 'w" where
  "Next client it w =
     (if it_err it \<noteq> None then ((None, it_err it), it, w)
      else if it_done it then ((None, None), it, w)
      else
        (case (if it_current it = None then fetchNext client it w else (None, it, w)) of
           (Some e, it1, w1) \<Rightarrow> ((None, Some e), it1\<lparr>it_err := Some e\<rparr>, w1)
         | (None, it1, w1) \<Rightarrow>
             (case it_current it1 of
                None \<Rightarrow> ((None, Some (RuntimePanic ''nil pointer dereference'')), it1, w1)
              | Some cur \<Rightarrow>
                  if it_index it1 < length (Transfers cur) then
                    ((Some (Transfers cur ! it_index it1), None),
                     it1\<lparr>it_index := it_index it1 + 1\<rparr>, w1)
                  else if \<not> HasMore cur then ((None, None), it1\<lparr>it_done := True\<rparr>, w1)
                  else
                    (case fetchNext client
                            (it1\<lparr>it_params := (it_params it1)\<lparr>params_PageKey := PageKey cur\<rparr>\<rparr>)
                            w1 of
                       (Some e, it2, w2) \<Rightarrow> ((None, Some e), it2\<lparr>it_err := Some e\<rparr>, w2)
                     | (None, it2, w2) \<Rightarrow>
                         (case it_current it2 of
                            None \<Rightarrow>
                              ((None, Some (RuntimePanic ''nil pointer dereference'')), it2, w2)
                          | Some cur2 \<Rightarrow>
                              if length (Transfers cur2) = 0
                              then ((None, None), it2\<lparr>it_done := True\<rparr>, w2)
                              else ((Some (Transfers cur2 ! 0), None),
                                    it2\<lparr>it_index := 1\<rparr>, w2))))))"

text \<open>\<open>(*AssetTransfersIterator).HasNext\<close>: it reads the iterator and nothing else.\<close>

definition HasNext ::
  "('a, 'p, 'w) endpoint \<Rightarrow> ('a, 'p) AssetTransfersIterator \<Rightarrow> 'w
     \<Rightarrow> bool \<times> ('a, 'p) AssetTransfersIterator \<times> 'w" where
  "HasNext client it w =
     (if it_done it \<or> it_err it \<noteq> None then (False, it, w)
      else
        (case it_current it of
           Some cur \<Rightarrow>
             if it_index it < length (Transfers cur) then (True, it, w)
             else (HasMore cur, it, w)
         | None \<Rightarrow> (True, it, w)))"

definition Reset :: "('a, 'p) AssetTransfersIterator \<Rightarrow> ('a, 'p) AssetTransfersIterator" where
  "Reset it =
     it\<lparr>it_current := None, it_index := 0, it_done := False, it_err := None,
        it_params := (it_params it)\<lparr>params_PageKey := []\<rparr>\<rparr>"

text \<open>
  \<open>(*AssetTransfersIterator).Collect\<close>: the loop \<open>for { ... }\<close> ends only when \<open>Next\<close>
  returns an error or no item, so the function is partial: \<open>None\<close> is a loop that never
  ends. The result is the Go pair \<open>([]AssetTransfer, error)\<close>.
\<close>

partial_function (option) Collect_loop ::
  "('a, 'p, 'w) endpoint \<Rightarrow> 'a list \<Rightarrow> ('a, 'p) AssetTransfersIterator \<Rightarrow> 'w
     \<Rightarrow> (('a list \<times> err option) \<times> ('a, 'p) AssetTransfersIterator \<times> 'w) option" where
  "Collect_loop client transfers it w =
     (case Next client it w of
        ((transfer, Some e), it', w') \<Rightarrow> Some (([], Some e), it', w')
      | ((None, None), it', w') \<Rightarrow> Some ((transfers, None), it', w')
      | ((Some t, None), it', w') \<Rightarrow> Collect_loop client (transfers @ [t]) it' w')"

definition Collect ::
  "('a, 'p, 'w) endpoint \<Rightarrow> ('a, 'p) AssetTransfersIterator \<Rightarrow> 'w
     \<Rightarrow> (('a list \<times> err option) \<times> ('a, 'p) AssetTransfersIterator \<times> 'w) option" where
  "Collect client it w = Collect_loop client [] it w"


section \<open>Example worlds\<close>

text \<open>
  Concrete clients, libraries and endpoints at which the theorems below are
  instantiated. The world of the HTTP examples is the number of exchanges made so far;
  the world of the iterator examples is the list of page keys requested so far.
\<close>

text \<open>\<open>context.Background()\<close>: never cancelled.\<close>

definition ctx_live :: Context where
  "ctx_live = \<lparr>ctx_Err = (\<lambda>n. Live), ctx_Done = (\<lambda>n. Live)\<rparr>"

text \<open>A transport that answers every request with the same status and body.\<close>

definition status_transport :: "int \<Rightarrow> string \<Rightarrow> string \<Rightarrow> nat Handler" where
  "status_transport sc st b ctx req n =
     (Inr \<lparr>StatusCode = sc, Status = st, Body = b, ReadErr = None\<rparr>, Suc n)"

text \<open>A client with the default retry settings of \<open>DefaultConfig\<close> and no middleware.\<close>

definition example_client :: "nat Handler \<Rightarrow> nat HTTPClient" where
  "example_client transport =
     \<lparr>baseURL = ''https://eth-mainnet.g.alchemy.com/v2'', apiKey = ''demo'',
      httpClient = transport, middlewares = [],
      retrier = \<lparr>MaxRetries = 3, InitialDelay = 1000000000, MaxDelay = 30000000000\<rparr>\<rparr>"

text \<open>
  A library whose encoder and request constructor succeed, whose envelope decoders
  return the given envelopes, and whose result decoder stores the payload text in the
  target.
\<close>

definition example_lib :: "JSONRPCResponse \<Rightarrow> JSONRPCResponse list \<Rightarrow> string lib" where
  "example_lib single batch =
     \<lparr>json_Marshal = (\<lambda>b. Inr ''{}''),
      http_NewRequestWithContext =
        (\<lambda>m u b. Inr \<lparr>Method = m, URL = u, ReqBody = b, Header = Map.empty\<rparr>),
      json_Unmarshal_response = (\<lambda>s. Inr single),
      json_Unmarshal_batch = (\<lambda>s. Inr batch),
      json_Unmarshal_result = (\<lambda>payload t. (None, payload))\<rparr>"

definition example_request :: Request where
  "example_request = \<lparr>Method = ''POST'', URL = ''https://eth-mainnet.g.alchemy.com/v2/demo'',
                       ReqBody = Some ''{}'', Header = Map.empty\<rparr>"

definition envelope :: "64 word \<Rightarrow> string \<Rightarrow> JSONRPCError option \<Rightarrow> JSONRPCResponse" where
  "envelope i res e = \<lparr>resp_JSONRPC = ''2.0'', resp_ID = i, resp_Result = res, resp_Error = e\<rparr>"

text \<open>
  An endpoint with two pages: \<open>[a, b]\<close> with next cursor \<open>k2\<close>, then what \<open>page2\<close> says.
\<close>

definition two_pages ::
  "(err + string AssetTransfersResponse) \<Rightarrow> (string, unit, string list) endpoint" where
  "two_pages page2 params keys =
     (if params_PageKey params = []
      then Inr \<lparr>PageKey = ''k2'', Transfers = [''a'', ''b'']\<rparr>
      else page2,
      keys @ [params_PageKey params])"

definition first_page_params :: "unit AssetTransfersParams" where
  "first_page_params = \<lparr>params_PageKey = [], params_rest = ()\<rparr>"


text \<open>Three calls of a batch, each with a decode target.\<close>

definition example_calls :: "string BatchCall list" where
  "example_calls =
     [\<lparr>bc_Method = ''eth_blockNumber'', bc_Params = [], bc_Result = Some []\<rparr>,
      \<lparr>bc_Method = ''eth_chainId'', bc_Params = [], bc_Result = Some []\<rparr>,
      \<lparr>bc_Method = ''eth_gasPrice'', bc_Params = [], bc_Result = Some []\<rparr>]"

text \<open>A JSON-RPC error object with a code of the server-error range.\<close>

definition server_error :: JSONRPCError where
  "server_error = \<lparr>Code = - 32000, Message = ''header not found'', Data = []\<rparr>"

text \<open>
  Second pages for \<open>two_pages\<close>: the page \<open>[c]\<close> without a next cursor, an empty page,
  and a failed fetch; and two iterator states over the first page: after the items
  \<open>a\<close> and \<open>b\<close> were returned, and after the fetch of the second page failed.
\<close>

definition last_page :: "err + string AssetTransfersResponse" where
  "last_page = Inr \<lparr>PageKey = [], Transfers = [''c'']\<rparr>"

definition empty_page :: "err + string AssetTransfersResponse" where
  "empty_page = Inr \<lparr>PageKey = [], Transfers = []\<rparr>"

definition failing_page :: "err + string AssetTransfersResponse" where
  "failing_page = Inl (HTTPError 500 ''500 Internal Server Error'' [] [])"

definition consumed_two :: "(string, unit) AssetTransfersIterator" where
  "consumed_two =
     \<lparr>it_params = first_page_params,
      it_current = Some \<lparr>PageKey = ''k2'', Transfers = [''a'', ''b'']\<rparr>,
      it_index = 2, it_done = False, it_err = None\<rparr>"

definition failed_iterator :: "(string, unit) AssetTransfersIterator" where
  "failed_iterator =
     consumed_two\<lparr>it_params := first_page_params\<lparr>params_PageKey := ''k2''\<rparr>,
                  it_err := Some (HTTPError 500 ''500 Internal Server Error'' [] [])\<rparr>"

section \<open>Properties of the error classifier\<close>

text \<open>
  Claim C4, as amended. The classifier \<open>errors.IsRetryable\<close> answers ``retryable''
  exactly when the first \<open>HTTPError\<close> in the error's \<open>Unwrap\<close> chain has status 408,
  429 or one in 500..599, or, when the chain holds no \<open>HTTPError\<close>, when the chain
  holds the rate-limit sentinel. It answers ``not retryable'' for nil, for the
  cancellation and deadline sentinels, and for every JSON-RPC protocol error, whatever
  its code. The method \<open>(*JSONRPCError).IsRetryable\<close>, which the classifier does not
  consult, answers ``retryable'' exactly for the codes in -32099..-32000 and -32603.
\<close>

theorem IsRetryable_classification:
  "IsRetryable None = False
   \<and> IsRetryable (Some e) =
       (case errors_As_HTTPError e of
          Some sc \<Rightarrow> sc = 408 \<or> sc = 429 \<or> (500 \<le> sc \<and> sc \<le> 599)
        | None \<Rightarrow> errors_Is e ErrRateLimited)
   \<and> IsRetryable (Some (JSONRPCErr j)) = False
   \<and> IsRetryable (Some ErrContextCanceled) = False
   \<and> IsRetryable (Some ErrContextDeadline) = False
   \<and> JSONRPCError_IsRetryable j =
       ((- 32099 \<le> Code j \<and> Code j \<le> - 32000) \<or> Code j = - 32603)"
  by (auto simp: IsRetryable_def HTTPError_IsRetryable_def JSONRPCError_IsRetryable_def
      IsServerError_def IsInternalError_def ServerErrorStart_def ServerErrorEnd_def
      InternalError_def split: option.splits)

text \<open>
  Claim C4 as stated fails: a JSON-RPC protocol error with the server-error code -32000
  is classified as not retryable by \<open>errors.IsRetryable\<close>.
\<close>

theorem IsRetryable_server_error_counterexample:
  "\<not> IsRetryable (Some (JSONRPCErr \<lparr>Code = - 32000, Message = ''server error'', Data = []\<rparr>))"
  by (simp add: IsRetryable_def)

section \<open>Properties of the HTTP client\<close>

lemma IsRetryable_HTTPError:
  "IsRetryable (Some (NewHTTPError sc st b)) = HTTPError_IsRetryable sc"
  by (simp add: IsRetryable_def NewHTTPError_def)

lemma Do_fn_retry:
  assumes "fst (h ctx req w) = Inr r" "StatusCode r = 429 \<or> 500 \<le> StatusCode r"
  shows "Do_fn h ctx req (resp, le, w) =
           (Some (NewHTTPError (StatusCode r) (Status r) (Body r)),
            (Some r, Some (NewHTTPError (StatusCode r) (Status r) (Body r)), exchange h ctx req w))"
  using assms by (cases "h ctx req w") (simp add: Do_fn_def Let_def exchange_def)

lemma Do_fn_pass:
  assumes "fst (h ctx req w) = Inr r" "StatusCode r \<noteq> 429" "StatusCode r < 500"
  shows "Do_fn h ctx req (resp, le, w) = (None, (Some r, le, exchange h ctx req w))"
  using assms by (cases "h ctx req w") (simp add: Do_fn_def exchange_def)

lemma Retrier_loop_retries:
  assumes live: "\<And>n. ctx_Err ctx n = Live" "\<And>n. ctx_Done ctx n = Live"
    and n: "nat (MaxRetries rt - attempt) = n" "attempt \<le> MaxRetries rt"
    and st: "\<And>k. k \<le> n \<Longrightarrow>
                \<exists>r. fst (h ctx req ((exchange h ctx req ^^ k) w)) = Inr r
                    \<and> (StatusCode r = 429 \<or> (500 \<le> StatusCode r \<and> StatusCode r < 600))"
  shows "\<exists>r. fst (h ctx req ((exchange h ctx req ^^ n) w)) = Inr r
            \<and> Retrier_loop rt ctx (Do_fn h ctx req) attempt lastErr (resp, le, w) =
                (Some (NewHTTPError (StatusCode r) (Status r) (Body r)),
                 (Some r, Some (NewHTTPError (StatusCode r) (Status r) (Body r)),
                  (exchange h ctx req ^^ Suc n) w))"
  using n st
proof (induction n arbitrary: attempt lastErr resp le w)
  case 0
  from "0.prems"(3)[of 0] obtain r where r: "fst (h ctx req w) = Inr r"
    "StatusCode r = 429 \<or> (500 \<le> StatusCode r \<and> StatusCode r < 600)" by auto
  let ?e = "NewHTTPError (StatusCode r) (Status r) (Body r)"
  have att: "attempt = MaxRetries rt" using "0.prems" by simp
  have fn: "Do_fn h ctx req (resp, le, w) = (Some ?e, (Some r, Some ?e, exchange h ctx req w))"
    using Do_fn_retry[of h ctx req w r] r by auto
  have sr: "ShouldRetry rt ?e" "as_stopRetry ?e = None"
    using r by (auto simp: ShouldRetry_def IsRetryable_def HTTPError_IsRetryable_def NewHTTPError_def)
  have "Retrier_loop rt ctx (Do_fn h ctx req) attempt lastErr (resp, le, w) =
          (Some ?e, (Some r, Some ?e, exchange h ctx req w))"
    by (subst Retrier_loop.simps) (simp add: att fn sr live)
  then show ?case using r by simp
next
  case (Suc n)
  from Suc.prems(3)[of 0] obtain r where r: "fst (h ctx req w) = Inr r"
    "StatusCode r = 429 \<or> (500 \<le> StatusCode r \<and> StatusCode r < 600)" by auto
  let ?e = "NewHTTPError (StatusCode r) (Status r) (Body r)"
  let ?w = "exchange h ctx req w"
  have att: "attempt \<noteq> MaxRetries rt" "attempt \<le> MaxRetries rt"
    "nat (MaxRetries rt - (attempt + 1)) = n" "attempt + 1 \<le> MaxRetries rt"
    using Suc.prems by auto
  have fn: "Do_fn h ctx req (resp, le, w) = (Some ?e, (Some r, Some ?e, ?w))"
    using Do_fn_retry[of h ctx req w r] r by auto
  have sr: "ShouldRetry rt ?e" "as_stopRetry ?e = None"
    using r by (auto simp: ShouldRetry_def IsRetryable_def HTTPError_IsRetryable_def NewHTTPError_def)
  have shift: "(exchange h ctx req ^^ k) ?w = (exchange h ctx req ^^ Suc k) w" for k
    by (simp add: funpow_swap1)
  have st': "\<exists>r. fst (h ctx req ((exchange h ctx req ^^ k) ?w)) = Inr r
                    \<and> (StatusCode r = 429 \<or> (500 \<le> StatusCode r \<and> StatusCode r < 600))"
    if "k \<le> n" for k
    using Suc.prems(3)[of "Suc k"] that unfolding shift by simp
  from Suc.IH[OF att(3) att(4) st', of "Some ?e" "Some r" "Some ?e"]
  obtain r' where r': "fst (h ctx req ((exchange h ctx req ^^ n) ?w)) = Inr r'"
    "Retrier_loop rt ctx (Do_fn h ctx req) (attempt + 1) (Some ?e) (Some r, Some ?e, ?w) =
                (Some (NewHTTPError (StatusCode r') (Status r') (Body r')),
                 (Some r', Some (NewHTTPError (StatusCode r') (Status r') (Body r')),
                  (exchange h ctx req ^^ Suc n) ?w))" by blast
  have "Retrier_loop rt ctx (Do_fn h ctx req) attempt lastErr (resp, le, w) =
          Retrier_loop rt ctx (Do_fn h ctx req) (attempt + 1) (Some ?e) (Some r, Some ?e, ?w)"
    by (subst Retrier_loop.simps) (simp add: att fn sr live)
  then show ?case using r' unfolding shift by simp
qed


lemma Do_single_attempt:
  assumes "0 \<le> MaxRetries (retrier c)" "ctx_Err ctx 0 = Live"
    and "fst (handler_chain c ctx req w) = Inr r" "StatusCode r \<noteq> 429" "StatusCode r < 500"
  shows "Do c ctx req w = ((Some r, None), exchange (handler_chain c) ctx req w)"
proof -
  have "Retrier_loop (retrier c) ctx (Do_fn (handler_chain c) ctx req) 0 None (None, None, w) =
          (None, (Some r, None, exchange (handler_chain c) ctx req w))"
    by (subst Retrier_loop.simps) (simp add: assms Do_fn_pass)
  then show ?thesis by (simp add: Do_def Retrier_Do_def)
qed

lemma Do_unretryable_status:
  assumes "0 \<le> MaxRetries (retrier c)" "ctx_Err ctx 0 = Live"
    and "fst (handler_chain c ctx req w) = Inr r" "600 \<le> StatusCode r"
  shows "Do c ctx req w =
           ((None, Some (NewHTTPError (StatusCode r) (Status r) (Body r))),
            exchange (handler_chain c) ctx req w)"
proof -
  let ?e = "NewHTTPError (StatusCode r) (Status r) (Body r)"
  have fn: "Do_fn (handler_chain c) ctx req (None, None, w) =
              (Some ?e, (Some r, Some ?e, exchange (handler_chain c) ctx req w))"
    using Do_fn_retry[of "handler_chain c" ctx req w r] assms by auto
  have sr: "\<not> ShouldRetry (retrier c) ?e" "as_stopRetry ?e = None"
    using assms
    by (auto simp: ShouldRetry_def IsRetryable_def HTTPError_IsRetryable_def NewHTTPError_def)
  have "Retrier_loop (retrier c) ctx (Do_fn (handler_chain c) ctx req) 0 None (None, None, w) =
          (Some ?e, (Some r, Some ?e, exchange (handler_chain c) ctx req w))"
    by (subst Retrier_loop.simps) (simp add: assms fn sr)
  then show ?thesis using sr by (simp add: Do_def Retrier_Do_def)
qed

lemma Do_retries_exhausted:
  assumes "0 \<le> MaxRetries (retrier c)"
    and "\<And>n. ctx_Err ctx n = Live" "\<And>n. ctx_Done ctx n = Live"
    and "\<And>k. k \<le> nat (MaxRetries (retrier c)) \<Longrightarrow>
           \<exists>r. fst (handler_chain c ctx req ((exchange (handler_chain c) ctx req ^^ k) w)) = Inr r
               \<and> (StatusCode r = 429 \<or> (500 \<le> StatusCode r \<and> StatusCode r < 600))"
  shows "\<exists>r. fst (handler_chain c ctx req
                  ((exchange (handler_chain c) ctx req ^^ nat (MaxRetries (retrier c))) w)) = Inr r
           \<and> Do c ctx req w =
               ((None, Some (NewHTTPError (StatusCode r) (Status r) (Body r))),
                (exchange (handler_chain c) ctx req ^^ Suc (nat (MaxRetries (retrier c)))) w)"
proof -
  from Retrier_loop_retries[of ctx "retrier c" 0 "nat (MaxRetries (retrier c))" "handler_chain c"
      req w None None None, OF assms(2) assms(3) _ assms(1) assms(4)]
  obtain r where r:
    "fst (handler_chain c ctx req
        ((exchange (handler_chain c) ctx req ^^ nat (MaxRetries (retrier c))) w)) = Inr r"
    "Retrier_loop (retrier c) ctx (Do_fn (handler_chain c) ctx req) 0 None (None, None, w) =
       (Some (NewHTTPError (StatusCode r) (Status r) (Body r)),
        (Some r, Some (NewHTTPError (StatusCode r) (Status r) (Body r)),
         (exchange (handler_chain c) ctx req ^^ Suc (nat (MaxRetries (retrier c)))) w))"
    by auto
  have "as_stopRetry (NewHTTPError (StatusCode r) (Status r) (Body r)) = None"
    by (simp add: NewHTTPError_def)
  then show ?thesis using r by (auto simp: Do_def Retrier_Do_def simp del: funpow.simps)
qed


text \<open>
  Claim C2, as amended. Let the context never be cancelled and \<open>MaxRetries\<close> be
  non-negative. If every attempt is answered with status \<open>sc\<close>, where \<open>sc\<close> is 429 or in
  500..599 (503 for one), then \<open>Do\<close> fails with an \<open>HTTPError\<close> of status \<open>sc\<close> after
  exactly \<open>MaxRetries + 1\<close> exchanges: the first attempt and \<open>MaxRetries\<close> retries. A
  first answer with any status below 500 other than 429 (404 for one) is not retried
  and is no error for \<open>Do\<close>: after this one exchange \<open>Do\<close> returns the response itself
  and a nil error; a first answer with a status of 600 or more is not retried either,
  and \<open>Do\<close> returns an \<open>HTTPError\<close> of that status. What \<open>Post\<close> and \<open>Get\<close> make of the
  outcome of \<open>Do\<close> is \<open>read_response\<close>: for a first answer with a status outside
  200..299, other than 429 and 500..599, they fail after the one exchange with an
  \<open>HTTPError\<close> of that status when the body of the response can be read, and an unread
  body of a response that \<open>Do\<close> returns gives the error \<open>READ_ERROR\<close> instead.
\<close>

theorem Do_retry_policy:
  assumes "0 \<le> MaxRetries (retrier c)"
    and "\<forall>n. ctx_Err ctx n = Live \<and> ctx_Done ctx n = Live"
  shows
    "(((sc = 429 \<or> (500 \<le> sc \<and> sc < 600)) \<and>
      (\<forall>k \<le> nat (MaxRetries (retrier c)).
         \<exists>r. fst (handler_chain c ctx req ((exchange (handler_chain c) ctx req ^^ k) w)) = Inr r
             \<and> StatusCode r = sc)
      \<longrightarrow> (\<exists>st b. Do c ctx req w =
                    ((None, Some (HTTPError sc st b [])),
                     (exchange (handler_chain c) ctx req ^^ (nat (MaxRetries (retrier c)) + 1)) w))))
     \<and> (\<forall>r. fst (handler_chain c ctx req w) = Inr r
             \<and> StatusCode r \<noteq> 429 \<and> StatusCode r < 500
          \<longrightarrow> Do c ctx req w = ((Some r, None), exchange (handler_chain c) ctx req w))
     \<and> (\<forall>r. fst (handler_chain c ctx req w) = Inr r \<and> 600 \<le> StatusCode r
          \<longrightarrow> Do c ctx req w =
                ((None, Some (HTTPError (StatusCode r) (Status r) (Body r) [])),
                 exchange (handler_chain c) ctx req w))
     \<and> (\<forall>r. fst (handler_chain c ctx req w) = Inr r \<and> ReadErr r = None
             \<and> StatusCode r \<noteq> 429 \<and> \<not> (500 \<le> StatusCode r \<and> StatusCode r < 600)
             \<and> (StatusCode r < 200 \<or> 300 \<le> StatusCode r)
          \<longrightarrow> read_response (Do c ctx req w) =
                (Inl (HTTPError (StatusCode r) (Status r) (Body r) []),
                 exchange (handler_chain c) ctx req w))
     \<and> (\<forall>r e. fst (handler_chain c ctx req w) = Inr r \<and> ReadErr r = Some e
             \<and> StatusCode r \<noteq> 429 \<and> StatusCode r < 500
          \<longrightarrow> read_response (Do c ctx req w) =
                (Inl (Wrap e ''READ_ERROR'' ''failed to read response body''),
                 exchange (handler_chain c) ctx req w))
     \<and> (\<forall>r req0.
            http_NewRequestWithContext l ''GET'' (request_url c path) None = Inr req0
            \<and> req = req0\<lparr>Header := (Header req0)(''Accept'' \<mapsto> ''application/json'')\<rparr>
            \<and> fst (handler_chain c ctx req w) = Inr r \<and> ReadErr r = None
             \<and> StatusCode r \<noteq> 429 \<and> \<not> (500 \<le> StatusCode r \<and> StatusCode r < 600)
             \<and> (StatusCode r < 200 \<or> 300 \<le> StatusCode r)
          \<longrightarrow> Get c l ctx path w =
                (Inl (HTTPError (StatusCode r) (Status r) (Body r) []),
                 exchange (handler_chain c) ctx req w))
     \<and> (\<forall>r req0 body data.
            json_Marshal l body = Inr data
            \<and> http_NewRequestWithContext l ''POST'' (request_url c path) (Some data) = Inr req0
            \<and> req = req0\<lparr>Header := (Header req0)(''Content-Type'' \<mapsto> ''application/json'',
                                                    ''Accept'' \<mapsto> ''application/json'')\<rparr>
            \<and> fst (handler_chain c ctx req w) = Inr r \<and> ReadErr r = None
             \<and> StatusCode r \<noteq> 429 \<and> \<not> (500 \<le> StatusCode r \<and> StatusCode r < 600)
             \<and> (StatusCode r < 200 \<or> 300 \<le> StatusCode r)
          \<longrightarrow> Post c l ctx path (Some body) w =
                (Inl (HTTPError (StatusCode r) (Status r) (Body r) []),
                 exchange (handler_chain c) ctx req w))"
proof -
  have live: "ctx_Err ctx 0 = Live" using assms(2) by simp
  have A: "\<exists>st b. Do c ctx req w =
                    ((None, Some (HTTPError sc st b [])),
                     (exchange (handler_chain c) ctx req ^^ (nat (MaxRetries (retrier c)) + 1)) w)"
    if a: "(sc = 429 \<or> (500 \<le> sc \<and> sc < 600)) \<and>
      (\<forall>k \<le> nat (MaxRetries (retrier c)).
         \<exists>r. fst (handler_chain c ctx req ((exchange (handler_chain c) ctx req ^^ k) w)) = Inr r
             \<and> StatusCode r = sc)"
  proof -
    have "\<exists>r. fst (handler_chain c ctx req ((exchange (handler_chain c) ctx req ^^ k) w)) = Inr r
               \<and> (StatusCode r = 429 \<or> (500 \<le> StatusCode r \<and> StatusCode r < 600))"
      if "k \<le> nat (MaxRetries (retrier c))" for k
      using a that by blast
    from Do_retries_exhausted[of c ctx req w, OF assms(1) _ _ this] assms(2) a
    show ?thesis by (auto simp: NewHTTPError_def simp del: funpow.simps)
  qed
  have B: "Do c ctx req w = ((Some r, None), exchange (handler_chain c) ctx req w)"
    if "fst (handler_chain c ctx req w) = Inr r \<and> StatusCode r \<noteq> 429 \<and> StatusCode r < 500"
    for r
    using Do_single_attempt[of c ctx req w r] assms(1) live that by simp
  have B': "Do c ctx req w =
                ((None, Some (HTTPError (StatusCode r) (Status r) (Body r) [])),
                 exchange (handler_chain c) ctx req w)"
    if "fst (handler_chain c ctx req w) = Inr r \<and> 600 \<le> StatusCode r" for r
    using Do_unretryable_status[of c ctx req w r] assms(1) live that
    by (simp add: NewHTTPError_def)
  have C: "read_response (Do c ctx req w) =
                (Inl (HTTPError (StatusCode r) (Status r) (Body r) []),
                 exchange (handler_chain c) ctx req w)"
    if a: "fst (handler_chain c ctx req w) = Inr r \<and> ReadErr r = None
             \<and> StatusCode r \<noteq> 429 \<and> \<not> (500 \<le> StatusCode r \<and> StatusCode r < 600)
             \<and> (StatusCode r < 200 \<or> 300 \<le> StatusCode r)" for r
  proof (cases "StatusCode r < 500")
    case True
    with B[of r] a show ?thesis by (auto simp: read_response_def NewHTTPError_def)
  next
    case False
    with B'[of r] a show ?thesis by (auto simp: read_response_def)
  qed
  have D: "read_response (Do c ctx req w) =
                (Inl (Wrap e ''READ_ERROR'' ''failed to read response body''),
                 exchange (handler_chain c) ctx req w)"
    if "fst (handler_chain c ctx req w) = Inr r \<and> ReadErr r = Some e
             \<and> StatusCode r \<noteq> 429 \<and> StatusCode r < 500" for r e
    using B[of r] that by (simp add: read_response_def)
  have E: "Get c l ctx path w =
                (Inl (HTTPError (StatusCode r) (Status r) (Body r) []),
                 exchange (handler_chain c) ctx req w)"
    if a: "http_NewRequestWithContext l ''GET'' (request_url c path) None = Inr req0
            \<and> req = req0\<lparr>Header := (Header req0)(''Accept'' \<mapsto> ''application/json'')\<rparr>
            \<and> fst (handler_chain c ctx req w) = Inr r \<and> ReadErr r = None
             \<and> StatusCode r \<noteq> 429 \<and> \<not> (500 \<le> StatusCode r \<and> StatusCode r < 600)
             \<and> (StatusCode r < 200 \<or> 300 \<le> StatusCode r)" for r req0
  proof -
    from a have g: "http_NewRequestWithContext l ''GET'' (request_url c path) None = Inr req0"
      and rq: "req = req0\<lparr>Header := (Header req0)(''Accept'' \<mapsto> ''application/json'')\<rparr>"
      and rc: "fst (handler_chain c ctx req w) = Inr r \<and> ReadErr r = None
             \<and> StatusCode r \<noteq> 429 \<and> \<not> (500 \<le> StatusCode r \<and> StatusCode r < 600)
             \<and> (StatusCode r < 200 \<or> 300 \<le> StatusCode r)"
      by blast+
    have "Get c l ctx path w = read_response (Do c ctx req w)"
      by (simp add: Get_def g rq[symmetric])
    then show ?thesis using C[OF rc] by simp
  qed
  have F: "Post c l ctx path (Some body) w =
                (Inl (HTTPError (StatusCode r) (Status r) (Body r) []),
                 exchange (handler_chain c) ctx req w)"
    if a: "json_Marshal l body = Inr data
            \<and> http_NewRequestWithContext l ''POST'' (request_url c path) (Some data) = Inr req0
            \<and> req = req0\<lparr>Header := (Header req0)(''Content-Type'' \<mapsto> ''application/json'',
                                                    ''Accept'' \<mapsto> ''application/json'')\<rparr>
            \<and> fst (handler_chain c ctx req w) = Inr r \<and> ReadErr r = None
             \<and> StatusCode r \<noteq> 429 \<and> \<not> (500 \<le> StatusCode r \<and> StatusCode r < 600)
             \<and> (StatusCode r < 200 \<or> 300 \<le> StatusCode r)" for r req0 body data
  proof -
    from a have g: "json_Marshal l body = Inr data"
      "http_NewRequestWithContext l ''POST'' (request_url c path) (Some data) = Inr req0"
      and rq: "req = req0\<lparr>Header := (Header req0)(''Content-Type'' \<mapsto> ''application/json'',
                                                    ''Accept'' \<mapsto> ''application/json'')\<rparr>"
      and rc: "fst (handler_chain c ctx req w) = Inr r \<and> ReadErr r = None
             \<and> StatusCode r \<noteq> 429 \<and> \<not> (500 \<le> StatusCode r \<and> StatusCode r < 600)
             \<and> (StatusCode r < 200 \<or> 300 \<le> StatusCode r)"
      by blast+
    have "Post c l ctx path (Some body) w = read_response (Do c ctx req w)"
      by (simp add: Post_def g rq[symmetric])
    then show ?thesis using C[OF rc] by simp
  qed
  show ?thesis using A B B' C D E F by blast
qed

text \<open>
  Claim C2 as stated fails for a request run through \<open>Do\<close>: a 404 answer surfaces no
  error. \<open>Do\<close> returns the response itself and a nil error, after one exchange.
\<close>

theorem Do_not_found_counterexample:
  "Do (example_client (status_transport 404 ''404 Not Found'' ''gone'')) ctx_live
      example_request 0 =
     ((Some \<lparr>StatusCode = 404, Status = ''404 Not Found'', Body = ''gone'', ReadErr = None\<rparr>,
       None), 1)"
proof -
  let ?t = "status_transport 404 ''404 Not Found'' ''gone''"
  have "Do (example_client ?t) ctx_live example_request 0 =
          ((Some \<lparr>StatusCode = 404, Status = ''404 Not Found'', Body = ''gone'', ReadErr = None\<rparr>,
            None),
           exchange (handler_chain (example_client ?t)) ctx_live example_request 0)"
    by (rule Do_single_attempt)
       (simp_all add: ctx_live_def status_transport_def example_client_def handler_chain_def
          doRequest_def)
  then show ?thesis by (simp add: exchange_def handler_chain_def example_client_def doRequest_def
        status_transport_def)
qed

lemma handler_chain_example [simp]: "handler_chain (example_client t) = t"
  by (rule ext)+ (simp add: handler_chain_def example_client_def doRequest_def)

lemma exchange_status_transport [simp]:
  "exchange (status_transport sc st b) ctx req = Suc"
  by (rule ext) (simp add: exchange_def status_transport_def)

lemma retrier_example [simp]: "MaxRetries (retrier (example_client t)) = 3"
  by (simp add: example_client_def)

theorem Do_retry_policy_witness:
  "0 \<le> MaxRetries (retrier (example_client (status_transport 503 ''503 Service Unavailable'' ''busy'')))
   \<and> (\<forall>n. ctx_Err ctx_live n = Live \<and> ctx_Done ctx_live n = Live)
   \<and> (\<exists>st b. Do (example_client (status_transport 503 ''503 Service Unavailable'' ''busy''))
                 ctx_live example_request 0 = ((None, Some (HTTPError 503 st b [])), 4))
   \<and> read_response (Do (example_client (status_transport 404 ''404 Not Found'' ''gone''))
                       ctx_live example_request 0) =
       (Inl (HTTPError 404 ''404 Not Found'' ''gone'' []), 1)
   \<and> Get (example_client (status_transport 404 ''404 Not Found'' ''gone''))
         (example_lib (envelope 0 [] None) []) ctx_live [] 0 =
       (Inl (HTTPError 404 ''404 Not Found'' ''gone'' []), 1)
   \<and> Post (example_client (status_transport 404 ''404 Not Found'' ''gone''))
         (example_lib (envelope 0 [] None) []) ctx_live [] (Some (Batch [])) 0 =
       (Inl (HTTPError 404 ''404 Not Found'' ''gone'' []), 1)"
proof -
  let ?t = "status_transport 404 ''404 Not Found'' ''gone''"
  let ?l = "example_lib (envelope 0 [] None) []"
  let ?r = "\<lparr>StatusCode = 404, Status = ''404 Not Found'', Body = ''gone'', ReadErr = None\<rparr>"
  let ?ga = "\<lparr>Method = ''GET'', URL = request_url (example_client ?t) [], ReqBody = None,
               Header = Map.empty\<rparr>"
  let ?gb = "?ga\<lparr>Header := (Header ?ga)(''Accept'' \<mapsto> ''application/json'')\<rparr>"
  let ?pa = "\<lparr>Method = ''POST'', URL = request_url (example_client ?t) [], ReqBody = Some ''{}'',
               Header = Map.empty\<rparr>"
  let ?pb = "?pa\<lparr>Header := (Header ?pa)(''Content-Type'' \<mapsto> ''application/json'',
                                           ''Accept'' \<mapsto> ''application/json'')\<rparr>"
  have live: "\<forall>n. ctx_Err ctx_live n = Live \<and> ctx_Done ctx_live n = Live"
    by (simp add: ctx_live_def)
  have m: "0 \<le> MaxRetries (retrier (example_client t))" for t by simp
  have "(Suc ^^ 4) 0 = 4" by (simp add: numeral_eq_Suc)
  then have a: "\<exists>st b. Do (example_client (status_transport 503 ''503 Service Unavailable'' ''busy''))
              ctx_live example_request 0 = ((None, Some (HTTPError 503 st b [])), 4)"
    using Do_retry_policy[OF m[of "status_transport 503 ''503 Service Unavailable'' ''busy''"] live,
        where sc=503 and req=example_request and w=0, THEN conjunct1]
    by (simp add: status_transport_def del: funpow.simps)
  note th = Do_retry_policy[OF m[of "?t"] live, where w=0 and l="?l" and path="[]"]
  have b: "read_response (Do (example_client ?t) ctx_live example_request 0) =
       (Inl (HTTPError 404 ''404 Not Found'' ''gone'' []), 1)"
    using th[where req=example_request, THEN conjunct2, THEN conjunct2, THEN conjunct2,
        THEN conjunct1, rule_format, of "?r"]
    by (simp add: status_transport_def)
  have g: "Get (example_client ?t) ?l ctx_live [] 0 =
       (Inl (HTTPError 404 ''404 Not Found'' ''gone'' []), 1)"
    using th[where req="?gb", THEN conjunct2, THEN conjunct2, THEN conjunct2, THEN conjunct2,
        THEN conjunct2, THEN conjunct1, rule_format, of "?ga" "?r"]
    by (simp add: status_transport_def example_lib_def)
  have p: "Post (example_client ?t) ?l ctx_live [] (Some (Batch [])) 0 =
       (Inl (HTTPError 404 ''404 Not Found'' ''gone'' []), 1)"
    using th[where req="?pb", THEN conjunct2, THEN conjunct2, THEN conjunct2, THEN conjunct2,
        THEN conjunct2, THEN conjunct2, rule_format, of "Batch []" "''{}''" "?pa" "?r"]
    by (simp add: status_transport_def example_lib_def)
  show ?thesis using a b g p live m by blast
qed

section \<open>Properties of the JSON-RPC client\<close>

text \<open>
  Claim C9. A batch call with no calls returns an empty result list and a nil error,
  and leaves the world as it is: no request is made.
\<close>

theorem BatchCall_empty: "BatchCall c l ctx [] w = (([], None), w)"
  by (simp add: BatchCall_def)

lemma responseMap_snoc: "responseMap (rs @ [r]) = (responseMap rs)(resp_ID r \<mapsto> r)"
  by (simp add: responseMap_def)

lemma responseMap_find:
  "responseMap rs k = find (\<lambda>r. resp_ID r = k) (rev rs)"
proof (induction rs rule: rev_induct)
  case Nil
  show ?case by (simp add: responseMap_def)
next
  case (snoc r rs)
  then show ?case by (simp add: responseMap_snoc)
qed

lemma responseMap_SomeD:
  "responseMap rs k = Some r \<Longrightarrow> r \<in> set rs \<and> resp_ID r = k"
  by (induction rs rule: rev_induct) (auto simp: responseMap_def split: if_splits)

lemma responseMap_distinct:
  assumes "distinct (map resp_ID rs)"
  shows "responseMap rs k = Some r \<longleftrightarrow> r \<in> set rs \<and> resp_ID r = k"
  using assms
proof (induction rs rule: rev_induct)
  case Nil
  show ?case by (simp add: responseMap_def)
next
  case (snoc x rs)
  then show ?case by (auto simp: responseMap_snoc image_iff dest: responseMap_SomeD)
qed

lemma responseMap_reorder:
  assumes "distinct (map resp_ID rs)" "distinct (map resp_ID rs')" "set rs' = set rs"
  shows "responseMap rs' = responseMap rs"
proof (rule ext)
  fix k
  show "responseMap rs' k = responseMap rs k"
  proof (cases "responseMap rs k")
    case None
    then have "\<forall>r. \<not> (r \<in> set rs \<and> resp_ID r = k)"
      using responseMap_distinct[OF assms(1), of k] by simp
    then have "\<forall>r. responseMap rs' k \<noteq> Some r"
      using responseMap_distinct[OF assms(2), of k] assms(3) by simp
    then show ?thesis using None by (cases "responseMap rs' k") auto
  next
    case (Some r)
    then show ?thesis
      using responseMap_distinct[OF assms(1), of k r] responseMap_distinct[OF assms(2), of k r]
        assms(3) by simp
  qed
qed

lemma BatchCall_results:
  assumes "calls \<noteq> []"
    and "Post c l ctx [] (Some (Batch (batch_requests calls))) w = (Inr respBody, w')"
    and "json_Unmarshal_batch l respBody = Inr responses"
  shows "BatchCall c l ctx calls w =
           ((map (\<lambda>(i, call). batch_slot l (responseMap responses) i call) (enumerate 0 calls),
             None), w')"
  using assms by (simp add: BatchCall_def)

lemma batch_slot_nth:
  "i < length calls \<Longrightarrow>
     map (\<lambda>(i, call). batch_slot l m i call) (enumerate 0 calls) ! i = batch_slot l m i (calls ! i)"
  by (simp add: nth_enumerate_eq)

lemma batch_requests_ID:
  "i < length calls \<Longrightarrow> ID (batch_requests calls ! i) = of_nat (i + 1)"
  by (simp add: batch_requests_def nth_enumerate_eq)

lemma batch_requests_nth:
  "i < length calls \<Longrightarrow>
     batch_requests calls ! i =
       \<lparr>JSONRPC = ''2.0'', rpc_Method = bc_Method (calls ! i), Params = bc_Params (calls ! i),
        ID = of_nat (i + 1)\<rparr>"
  by (simp add: batch_requests_def nth_enumerate_eq)

lemma Post_example:
  assumes "200 \<le> sc" "sc < 300"
  shows "Post (example_client (status_transport sc st b)) (example_lib single batch) ctx_live
           path (Some body) n = (Inr b, Suc n)"
proof -
  have "Do (example_client (status_transport sc st b)) ctx_live req n =
          ((Some \<lparr>StatusCode = sc, Status = st, Body = b, ReadErr = None\<rparr>, None), Suc n)" for req
    using Do_single_attempt[of "example_client (status_transport sc st b)" ctx_live req n
        "\<lparr>StatusCode = sc, Status = st, Body = b, ReadErr = None\<rparr>"] assms
    by (simp add: ctx_live_def status_transport_def)
  then show ?thesis using assms
    by (simp add: Post_def example_lib_def read_response_def)
qed

text \<open>
  Claim C1. Let a batch of \<open>N > 0\<close> calls be posted, and let the response body decode to
  the envelopes \<open>responses\<close>. Request \<open>i\<close> of the posted batch is call \<open>i\<close>: its method
  and its parameters, under the id \<open>i + 1\<close>. Then \<open>BatchCall\<close>
  returns \<open>N\<close> results and no error, and result \<open>i\<close> is decided by the envelope stored
  under the id \<open>i + 1\<close> in the map, which is the last envelope of \<open>responses\<close> with that
  id, wherever it stands: with no such envelope the slot holds the missing-response
  error; with an error object it holds that protocol error; with a non-empty result
  payload and a target it holds what decoding the payload into the target gives (the
  decoded target, or the decode error). So the results follow the order of the calls:
  two responses with the same envelopes, ids distinct, in any order give the same
  results.
\<close>

theorem BatchCall_correlation:
  assumes "calls \<noteq> []"
    and "Post c l ctx [] (Some (Batch (batch_requests calls))) w = (Inr respBody, w')"
    and "json_Unmarshal_batch l respBody = Inr responses"
  shows "\<exists>results.
      BatchCall c l ctx calls w = ((results, None), w') \<and> length results = length calls \<and>
      (\<forall>i<length calls.
         ID (batch_requests calls ! i) = of_nat (i + 1) \<and>
         batch_requests calls ! i =
           \<lparr>JSONRPC = ''2.0'', rpc_Method = bc_Method (calls ! i),
            Params = bc_Params (calls ! i), ID = of_nat (i + 1)\<rparr> \<and>
         (case find (\<lambda>r. resp_ID r = of_nat (i + 1)) (rev responses) of
            None \<Rightarrow>
              results ! i =
                \<lparr>Error = Some (OtherError (''missing response for call '' @ decimal i)),
                 Result = None\<rparr>
          | Some resp \<Rightarrow>
              (case resp_Error resp of
                 Some e \<Rightarrow> results ! i = \<lparr>Error = Some (JSONRPCErr e), Result = None\<rparr>
               | None \<Rightarrow>
                   (\<forall>t. bc_Result (calls ! i) = Some t \<and> resp_Result resp \<noteq> [] \<longrightarrow>
                        results ! i =
                          (case json_Unmarshal_result l (resp_Result resp) t of
                             (None, t') \<Rightarrow> \<lparr>Error = None, Result = Some t'\<rparr>
                           | (Some e, t') \<Rightarrow>
                               \<lparr>Error = Some (Wrap e ''UNMARSHAL_ERROR''
                                                ''failed to unmarshal result''),
                                Result = None\<rparr>)))))
      \<and> (\<forall>v v' respBody' responses'.
            Post c l ctx [] (Some (Batch (batch_requests calls))) v = (Inr respBody', v')
            \<and> json_Unmarshal_batch l respBody' = Inr responses'
            \<and> distinct (map resp_ID responses) \<and> distinct (map resp_ID responses')
            \<and> set responses' = set responses
            \<longrightarrow> fst (BatchCall c l ctx calls v) = (results, None))"
proof -
  let ?results = "map (\<lambda>(i, call). batch_slot l (responseMap responses) i call) (enumerate 0 calls)"
  have run: "BatchCall c l ctx calls w = ((?results, None), w')"
    by (rule BatchCall_results[OF assms])
  have len: "length ?results = length calls" by simp
  have slots: "ID (batch_requests calls ! i) = of_nat (i + 1) \<and>
         batch_requests calls ! i =
           \<lparr>JSONRPC = ''2.0'', rpc_Method = bc_Method (calls ! i),
            Params = bc_Params (calls ! i), ID = of_nat (i + 1)\<rparr> \<and>
         (case find (\<lambda>r. resp_ID r = of_nat (i + 1)) (rev responses) of
            None \<Rightarrow>
              ?results ! i =
                \<lparr>Error = Some (OtherError (''missing response for call '' @ decimal i)),
                 Result = None\<rparr>
          | Some resp \<Rightarrow>
              (case resp_Error resp of
                 Some e \<Rightarrow> ?results ! i = \<lparr>Error = Some (JSONRPCErr e), Result = None\<rparr>
               | None \<Rightarrow>
                   (\<forall>t. bc_Result (calls ! i) = Some t \<and> resp_Result resp \<noteq> [] \<longrightarrow>
                        ?results ! i =
                          (case json_Unmarshal_result l (resp_Result resp) t of
                             (None, t') \<Rightarrow> \<lparr>Error = None, Result = Some t'\<rparr>
                           | (Some e, t') \<Rightarrow>
                               \<lparr>Error = Some (Wrap e ''UNMARSHAL_ERROR''
                                                ''failed to unmarshal result''),
                                Result = None\<rparr>))))"
    if "i < length calls" for i
    using that
    by (auto simp: nth_enumerate_eq batch_requests_ID batch_requests_nth batch_slot_def
        responseMap_find[symmetric] split: option.splits prod.splits)
  have reorder: "fst (BatchCall c l ctx calls v) = (?results, None)"
    if "Post c l ctx [] (Some (Batch (batch_requests calls))) v = (Inr respBody', v')"
      "json_Unmarshal_batch l respBody' = Inr responses'"
      "distinct (map resp_ID responses)" "distinct (map resp_ID responses')"
      "set responses' = set responses"
    for v v' respBody' responses'
    using BatchCall_results[OF assms(1) that(1) that(2)] responseMap_reorder[OF that(3,4,5)]
    by simp
  show ?thesis
    apply (rule exI[of _ ?results])
    using run len slots reorder by blast
qed

theorem BatchCall_correlation_witness:
  "\<exists>results.
     BatchCall (example_client (status_transport 200 ''200 OK'' ''[]''))
       (example_lib (envelope 0 [] None) [envelope 3 ''0x3'' None, envelope 1 ''0x1'' None])
       ctx_live example_calls 0 = ((results, None), 1)
     \<and> length results = 3
     \<and> results ! 0 = \<lparr>Error = None, Result = Some ''0x1''\<rparr>
     \<and> results ! 1 = \<lparr>Error = Some (OtherError ''missing response for call 1''), Result = None\<rparr>
     \<and> results ! 2 = \<lparr>Error = None, Result = Some ''0x3''\<rparr>
     \<and> batch_requests example_calls ! 0 =
         \<lparr>JSONRPC = ''2.0'', rpc_Method = ''eth_blockNumber'', Params = [], ID = 1\<rparr>
     \<and> batch_requests example_calls ! 2 =
         \<lparr>JSONRPC = ''2.0'', rpc_Method = ''eth_gasPrice'', Params = [], ID = 3\<rparr>"
proof -
  let ?c = "example_client (status_transport 200 ''200 OK'' ''[]'')"
  let ?rs = "[envelope 3 ''0x3'' None, envelope 1 ''0x1'' None]"
  let ?l = "example_lib (envelope 0 [] None) ?rs"
  have ne: "example_calls \<noteq> []" by (simp add: example_calls_def)
  have post: "Post ?c ?l ctx_live [] (Some (Batch (batch_requests example_calls))) 0 = (Inr ''[]'', 1)"
    by (simp add: Post_example)
  have parse: "json_Unmarshal_batch ?l ''[]'' = Inr ?rs" by (simp add: example_lib_def)
  have dec: "decimal (Suc 0) = ''1''" by code_simp
  from BatchCall_correlation[OF ne post parse] obtain results where
    r: "BatchCall ?c ?l ctx_live example_calls 0 = ((results, None), 1)"
      "length results = length example_calls"
    and slots: "
      (\<forall>i<length example_calls.
         ID (batch_requests example_calls ! i) = of_nat (i + 1) \<and>
         batch_requests example_calls ! i =
           \<lparr>JSONRPC = ''2.0'', rpc_Method = bc_Method (example_calls ! i),
            Params = bc_Params (example_calls ! i), ID = of_nat (i + 1)\<rparr> \<and>
         (case find (\<lambda>r. resp_ID r = of_nat (i + 1)) (rev ?rs) of
            None \<Rightarrow>
              results ! i =
                \<lparr>Error = Some (OtherError (''missing response for call '' @ decimal i)),
                 Result = None\<rparr>
          | Some resp \<Rightarrow>
              (case resp_Error resp of
                 Some e \<Rightarrow> results ! i = \<lparr>Error = Some (JSONRPCErr e), Result = None\<rparr>
               | None \<Rightarrow>
                   (\<forall>t. bc_Result (example_calls ! i) = Some t \<and> resp_Result resp \<noteq> [] \<longrightarrow>
                        results ! i =
                          (case json_Unmarshal_result ?l (resp_Result resp) t of
                             (None, t') \<Rightarrow> \<lparr>Error = None, Result = Some t'\<rparr>
                           | (Some e, t') \<Rightarrow>
                               \<lparr>Error = Some (Wrap e ''UNMARSHAL_ERROR''
                                                ''failed to unmarshal result''),
                                Result = None\<rparr>)))))"
    by blast
  have r3: "length example_calls = 3" "0 < length example_calls" "1 < length example_calls"
    "2 < length example_calls"
    by (simp_all add: example_calls_def)
  have "results ! 0 = \<lparr>Error = None, Result = Some ''0x1''\<rparr>"
    using slots[rule_format, OF r3(2)] by (simp add: example_calls_def envelope_def example_lib_def)
  moreover have "results ! 1 = \<lparr>Error = Some (OtherError ''missing response for call 1''), Result = None\<rparr>"
    using slots[rule_format, OF r3(3)] by (simp add: example_calls_def envelope_def example_lib_def dec del: decimal.simps)
  moreover have "results ! 2 = \<lparr>Error = None, Result = Some ''0x3''\<rparr>"
    using slots[rule_format, OF r3(4)] by (simp add: example_calls_def envelope_def example_lib_def)
  moreover have "batch_requests example_calls ! 0 =
         \<lparr>JSONRPC = ''2.0'', rpc_Method = ''eth_blockNumber'', Params = [], ID = 1\<rparr>"
    using slots[rule_format, OF r3(2)] by (simp add: example_calls_def)
  moreover have "batch_requests example_calls ! 2 =
         \<lparr>JSONRPC = ''2.0'', rpc_Method = ''eth_gasPrice'', Params = [], ID = 3\<rparr>"
    using slots[rule_format, OF r3(4)] by (simp add: example_calls_def)
  ultimately show ?thesis using r r3(1) by simp
qed

text \<open>
  Claim C10. In a batch call, a slot whose envelope in the map carries no error object,
  and either an empty result payload or no decode target from the caller, holds neither
  an error nor a result.
\<close>

theorem BatchCall_silent_slot:
  assumes "Post c l ctx [] (Some (Batch (batch_requests calls))) w = (Inr respBody, w')"
    and "json_Unmarshal_batch l respBody = Inr responses"
    and "i < length calls"
    and "responseMap responses (of_nat (i + 1)) = Some resp"
    and "resp_Error resp = None"
    and "resp_Result resp = [] \<or> bc_Result (calls ! i) = None"
  shows "\<exists>results. BatchCall c l ctx calls w = ((results, None), w')
           \<and> length results = length calls
           \<and> results ! i = \<lparr>Error = None, Result = None\<rparr>"
proof -
  have ne: "calls \<noteq> []" using assms(3) by auto
  have "batch_slot l (responseMap responses) i (calls ! i) = \<lparr>Error = None, Result = None\<rparr>"
    using assms(4,5,6) by (auto simp: batch_slot_def split: option.splits)
  then show ?thesis
    using BatchCall_results[OF ne assms(1,2)] assms(3) by (simp add: nth_enumerate_eq)
qed

theorem BatchCall_silent_slot_witness:
  "\<exists>results.
     BatchCall (example_client (status_transport 200 ''200 OK'' ''[]''))
       (example_lib (envelope 0 [] None)
          [envelope 1 [] None, envelope 2 ''0x2'' None, envelope 3 ''0x3'' None])
       ctx_live example_calls 0 = ((results, None), 1)
     \<and> length results = 3
     \<and> results ! 0 = \<lparr>Error = None, Result = None\<rparr>"
proof -
  let ?c = "example_client (status_transport 200 ''200 OK'' ''[]'')"
  let ?rs = "[envelope 1 [] None, envelope 2 ''0x2'' None, envelope 3 ''0x3'' None]"
  let ?l = "example_lib (envelope 0 [] None) ?rs"
  have post: "Post ?c ?l ctx_live [] (Some (Batch (batch_requests example_calls))) 0 = (Inr ''[]'', 1)"
    by (simp add: Post_example)
  have parse: "json_Unmarshal_batch ?l ''[]'' = Inr ?rs" by (simp add: example_lib_def)
  have i: "0 < length example_calls" by (simp add: example_calls_def)
  have m: "responseMap ?rs (of_nat (0 + 1)) = Some (envelope 1 [] None)"
    by (simp add: responseMap_def envelope_def)
  have e: "resp_Error (envelope 1 [] None) = None"
    "resp_Result (envelope 1 [] None) = [] \<or> bc_Result (example_calls ! 0) = None"
    by (simp_all add: envelope_def)
  have len: "length example_calls = 3" by (simp add: example_calls_def)
  show ?thesis
    using BatchCall_silent_slot[OF post parse i m e] len by simp
qed

text \<open>
  Claim C3, as amended. When the HTTP exchange of a single call succeeds at the first
  attempt and the response envelope carries an error object, \<open>Call\<close> returns that
  protocol error after this one exchange, whatever the code of the error is: -32602 is
  not retried, and neither is -32000.
\<close>

theorem Call_protocol_error_not_retried:
  assumes "json_Unmarshal_response l respBody = Inr resp" and "resp_Error resp = Some e"
  shows
    "(Post c l ctx [] (Some (Single \<lparr>JSONRPC = ''2.0'', rpc_Method = mth, Params = params,
                                      ID = counter + 1\<rparr>)) w = (Inr respBody, w')
      \<longrightarrow> Call c l ctx mth params result (counter, w) =
            ((Some (JSONRPCErr e), result), (counter + 1, w')))
     \<and> (0 \<le> MaxRetries (retrier c) \<and> ctx_Err ctx 0 = Live
        \<and> json_Marshal l (Single \<lparr>JSONRPC = ''2.0'', rpc_Method = mth, Params = params,
                                    ID = counter + 1\<rparr>) = Inr data
        \<and> http_NewRequestWithContext l ''POST'' (request_url c []) (Some data) = Inr req0
        \<and> req = req0\<lparr>Header := (Header req0)(''Content-Type'' \<mapsto> ''application/json'',
                                                ''Accept'' \<mapsto> ''application/json'')\<rparr>
        \<and> fst (handler_chain c ctx req w) = Inr r
        \<and> 200 \<le> StatusCode r \<and> StatusCode r < 300 \<and> ReadErr r = None \<and> Body r = respBody
      \<longrightarrow> Call c l ctx mth params result (counter, w) =
            ((Some (JSONRPCErr e), result),
             (counter + 1, exchange (handler_chain c) ctx req w)))"
proof (intro conjI impI)
  assume "Post c l ctx [] (Some (Single \<lparr>JSONRPC = ''2.0'', rpc_Method = mth, Params = params,
                                      ID = counter + 1\<rparr>)) w = (Inr respBody, w')"
  then show "Call c l ctx mth params result (counter, w) =
            ((Some (JSONRPCErr e), result), (counter + 1, w'))"
    using assms by (simp add: Call_def NextRequestID_def)
next
  assume a: "0 \<le> MaxRetries (retrier c) \<and> ctx_Err ctx 0 = Live
        \<and> json_Marshal l (Single \<lparr>JSONRPC = ''2.0'', rpc_Method = mth, Params = params,
                                    ID = counter + 1\<rparr>) = Inr data
        \<and> http_NewRequestWithContext l ''POST'' (request_url c []) (Some data) = Inr req0
        \<and> req = req0\<lparr>Header := (Header req0)(''Content-Type'' \<mapsto> ''application/json'',
                                                ''Accept'' \<mapsto> ''application/json'')\<rparr>
        \<and> fst (handler_chain c ctx req w) = Inr r
        \<and> 200 \<le> StatusCode r \<and> StatusCode r < 300 \<and> ReadErr r = None \<and> Body r = respBody"
  from a have m: "0 \<le> MaxRetries (retrier c)" "ctx_Err ctx 0 = Live"
    and r1: "fst (handler_chain c ctx req w) = Inr r"
    and ok: "200 \<le> StatusCode r" "StatusCode r < 300" "ReadErr r = None" "Body r = respBody"
    by blast+
  from ok have r2: "StatusCode r \<noteq> 429" "StatusCode r < 500" by simp_all
  note r = r1 r2
  from a have rq: "json_Marshal l (Single \<lparr>JSONRPC = ''2.0'', rpc_Method = mth, Params = params,
                                    ID = counter + 1\<rparr>) = Inr data"
    "http_NewRequestWithContext l ''POST'' (request_url c []) (Some data) = Inr req0"
    "req = req0\<lparr>Header := (Header req0)(''Content-Type'' \<mapsto> ''application/json'',
                                              ''Accept'' \<mapsto> ''application/json'')\<rparr>"
    by blast+
  have "Do c ctx req w = ((Some r, None), exchange (handler_chain c) ctx req w)"
    by (rule Do_single_attempt[OF m r])
  then have "Post c l ctx [] (Some (Single \<lparr>JSONRPC = ''2.0'', rpc_Method = mth,
                 Params = params, ID = counter + 1\<rparr>)) w =
               (Inr respBody, exchange (handler_chain c) ctx req w)"
    using ok by (simp add: Post_def read_response_def rq(1,2) rq(3)[symmetric])
  then show "Call c l ctx mth params result (counter, w) =
            ((Some (JSONRPCErr e), result),
             (counter + 1, exchange (handler_chain c) ctx req w))"
    using assms by (simp add: Call_def NextRequestID_def)
qed

theorem Call_protocol_error_not_retried_witness:
  "Call (example_client (status_transport 200 ''200 OK'' ''{}''))
        (example_lib (envelope 1 [] (Some \<lparr>Code = - 32602, Message = ''invalid params'', Data = []\<rparr>)) [])
        ctx_live ''eth_getBalance'' [] (Some []) (0, 0) =
     ((Some (JSONRPCErr \<lparr>Code = - 32602, Message = ''invalid params'', Data = []\<rparr>), Some []), (1, 1))"
proof -
  let ?t = "status_transport 200 ''200 OK'' ''{}''"
  let ?e = "\<lparr>Code = - 32602, Message = ''invalid params'', Data = []\<rparr>"
  let ?l = "example_lib (envelope 1 [] (Some ?e)) []"
  let ?rqa = "\<lparr>Method = ''POST'', URL = request_url (example_client ?t) [], ReqBody = Some ''{}'',
                 Header = Map.empty\<rparr>"
  let ?r = "\<lparr>StatusCode = 200, Status = ''200 OK'', Body = ''{}'', ReadErr = None\<rparr>"
  let ?rqb = "?rqa\<lparr>Header := (Header ?rqa)(''Content-Type'' \<mapsto> ''application/json'',
                                               ''Accept'' \<mapsto> ''application/json'')\<rparr>"
  note th = Call_protocol_error_not_retried[where c="example_client ?t" and ctx=ctx_live
      and l="?l" and mth="''eth_getBalance''" and params="[]" and counter=0
      and data="''{}''" and ?req0.0="?rqa" and req="?rqb" and w=0 and r="?r"
      and resp="envelope 1 [] (Some ?e)" and e="?e" and result="Some []"
      and respBody="''{}''", THEN conjunct2, rule_format]
  have ex: "exchange (handler_chain (example_client ?t)) ctx_live ?rqb 0 = 1"
    by simp
  have "Call (example_client ?t) ?l ctx_live ''eth_getBalance'' [] (Some []) (0, 0) =
          ((Some (JSONRPCErr ?e), Some []),
           (0 + 1, exchange (handler_chain (example_client ?t)) ctx_live ?rqb 0))"
    by (rule th) (simp_all add: ctx_live_def example_lib_def status_transport_def envelope_def)
  then show ?thesis unfolding ex by simp
qed

text \<open>
  Claim C3 as stated fails: with \<open>MaxRetries = 3\<close>, a call answered with the error code
  -32000, which \<open>(*JSONRPCError).IsRetryable\<close> reports as retryable, returns the error
  after a single exchange.
\<close>

theorem Call_server_error_counterexample:
  "Call (example_client (status_transport 200 ''200 OK'' ''{}''))
        (example_lib (envelope 1 [] (Some server_error)) []) ctx_live ''eth_getBalance'' [] (Some [])
        (0, 0) =
     ((Some (JSONRPCErr server_error), Some []), (1, 1))
   \<and> JSONRPCError_IsRetryable server_error
   \<and> MaxRetries (retrier (example_client (status_transport 200 ''200 OK'' ''{}''))) = 3"
proof -
  let ?l = "example_lib (envelope 1 [] (Some server_error)) []"
  have post: "Post (example_client (status_transport 200 ''200 OK'' ''{}'')) ?l ctx_live []
                (Some body) 0 = (Inr ''{}'', 1)" for body
    by (simp add: Post_example)
  have parse: "json_Unmarshal_response ?l ''{}'' = Inr (envelope 1 [] (Some server_error))"
    by (simp add: example_lib_def)
  have env: "resp_Error (envelope 1 [] (Some server_error)) = Some server_error"
    by (simp add: envelope_def)
  have "Call (example_client (status_transport 200 ''200 OK'' ''{}'')) ?l ctx_live
          ''eth_getBalance'' [] (Some []) (0, 0) =
        ((Some (JSONRPCErr server_error), Some []), (1, 1))"
    by (simp add: Call_def NextRequestID_def post parse env)
  moreover have "JSONRPCError_IsRetryable server_error"
    by (simp add: JSONRPCError_IsRetryable_def IsServerError_def ServerErrorStart_def
        ServerErrorEnd_def server_error_def)
  ultimately show ?thesis by simp
qed

section \<open>Properties of the pagination iterator\<close>

lemma Next_recorded_error:
  "it_err it = Some e \<Longrightarrow> Next client it w = ((None, Some e), it, w)"
  by (simp add: Next_def)

lemma Next_recorded_error_funpow:
  "it_err it = Some e \<Longrightarrow> ((\<lambda>(it, w). snd (Next client it w)) ^^ n) (it, w) = (it, w)"
  by (induction n) (simp_all add: Next_recorded_error)

lemma Next_done:
  "it_err it = None \<Longrightarrow> it_done it \<Longrightarrow> Next client it w = ((None, None), it, w)"
  by (simp add: Next_def)

lemma Next_error_is_recorded:
  "fst (Next client it w) = (x, Some e) \<Longrightarrow> it_err (fst (snd (Next client it w))) = Some e"
  by (auto simp: Next_def fetchNext_def split: if_splits option.splits prod.splits sum.splits)

lemma Next_first_fetch:
  assumes "it_err it = None" "\<not> it_done it" "it_current it = None"
  shows "Next client it w =
           (case client (it_params it) w of
              (Inl e, w') \<Rightarrow> ((None, Some e), it\<lparr>it_err := Some e\<rparr>, w')
            | (Inr page, w') \<Rightarrow> Next client (it\<lparr>it_current := Some page, it_index := 0\<rparr>) w')"
  using assms by (simp add: Next_def fetchNext_def split: prod.splits sum.splits)

text \<open>
  Claim C6. Over an endpoint that answers the first fetch with the page \<open>[a, b]\<close> and
  next cursor \<open>k2\<close>, and the fetch at \<open>k2\<close> with the page \<open>[c]\<close> and an empty cursor,
  \<open>Collect\<close> on a new iterator returns \<open>[a, b, c]\<close> and no error, and the world is the
  one after exactly these two fetches. In general, when the current page is used up, an
  empty next cursor ends the iteration without a fetch; a page fetched at a non-empty
  cursor that holds no items ends it too, with no item and no error; and an ended
  iteration stays ended.
\<close>

theorem Collect_two_pages:
  "(client p w0 = (Inr \<lparr>PageKey = ''k2'', Transfers = [a, b]\<rparr>, w1)
    \<and> client (p\<lparr>params_PageKey := ''k2''\<rparr>) w1 = (Inr \<lparr>PageKey = [], Transfers = [c]\<rparr>, w2)
    \<longrightarrow> (\<exists>it'. Collect client (fst (GetAssetTransfersIterator client p w0)) w0 =
                 Some (([a, b, c], None), it', w2) \<and> it_done it' \<and> it_err it' = None))
   \<and> (it_err it = None \<and> \<not> it_done it \<and> it_current it = Some cur
        \<and> length (Transfers cur) \<le> it_index it \<and> PageKey cur = []
      \<longrightarrow> Next client it w = ((None, None), it\<lparr>it_done := True\<rparr>, w))
   \<and> (it_err it = None \<and> \<not> it_done it \<and> it_current it = Some cur
        \<and> length (Transfers cur) \<le> it_index it \<and> PageKey cur \<noteq> []
        \<and> client ((it_params it)\<lparr>params_PageKey := PageKey cur\<rparr>) w = (Inr page, w')
        \<and> Transfers page = []
      \<longrightarrow> Next client it w =
            ((None, None),
             it\<lparr>it_params := (it_params it)\<lparr>params_PageKey := PageKey cur\<rparr>,
                it_current := Some page, it_index := 0, it_done := True\<rparr>, w'))
   \<and> (it_err it = None \<and> it_done it \<longrightarrow> Next client it w = ((None, None), it, w))"
proof (intro conjI impI)
  assume a: "client p w0 = (Inr \<lparr>PageKey = ''k2'', Transfers = [a, b]\<rparr>, w1)
    \<and> client (p\<lparr>params_PageKey := ''k2''\<rparr>) w1 = (Inr \<lparr>PageKey = [], Transfers = [c]\<rparr>, w2)"
  let ?P1 = "\<lparr>PageKey = ''k2'', Transfers = [a, b]\<rparr>"
  let ?P2 = "\<lparr>PageKey = [], Transfers = [c]\<rparr>"
  let ?it0 = "\<lparr>it_params = p, it_current = None, it_index = 0, it_done = False, it_err = None\<rparr>"
  let ?it1 = "\<lparr>it_params = p, it_current = Some ?P1, it_index = Suc 0, it_done = False, it_err = None\<rparr>"
  let ?it2 = "\<lparr>it_params = p, it_current = Some ?P1, it_index = Suc (Suc 0), it_done = False, it_err = None\<rparr>"
  let ?it3 = "\<lparr>it_params = p\<lparr>params_PageKey := ''k2''\<rparr>, it_current = Some ?P2, it_index = Suc 0,
               it_done = False, it_err = None\<rparr>"
  let ?it4 = "\<lparr>it_params = p\<lparr>params_PageKey := ''k2''\<rparr>, it_current = Some ?P2, it_index = Suc 0,
               it_done = True, it_err = None\<rparr>"
  have n1: "Next client ?it0 w0 = ((Some a, None), ?it1, w1)"
    using a by (simp add: Next_def fetchNext_def)
  have n2: "Next client ?it1 w1 = ((Some b, None), ?it2, w1)"
    by (simp add: Next_def)
  have n3: "Next client ?it2 w1 = ((Some c, None), ?it3, w2)"
    using a by (simp add: Next_def fetchNext_def HasMore_def)
  have n4: "Next client ?it3 w2 = ((None, None), ?it4, w2)"
    by (simp add: Next_def HasMore_def)
  have "Collect_loop client [a, b, c] ?it3 w2 = Some (([a, b, c], None), ?it4, w2)"
    by (subst Collect_loop.simps) (simp add: n4)
  then have "Collect_loop client [a, b] ?it2 w1 = Some (([a, b, c], None), ?it4, w2)"
    by (subst Collect_loop.simps) (simp add: n3)
  then have "Collect_loop client [a] ?it1 w1 = Some (([a, b, c], None), ?it4, w2)"
    by (subst Collect_loop.simps) (simp add: n2)
  then have "Collect_loop client [] ?it0 w0 = Some (([a, b, c], None), ?it4, w2)"
    by (subst Collect_loop.simps) (simp add: n1)
  then show "\<exists>it'. Collect client (fst (GetAssetTransfersIterator client p w0)) w0 =
                 Some (([a, b, c], None), it', w2) \<and> it_done it' \<and> it_err it' = None"
    by (simp add: Collect_def GetAssetTransfersIterator_def)
next
  assume "it_err it = None \<and> \<not> it_done it \<and> it_current it = Some cur
        \<and> length (Transfers cur) \<le> it_index it \<and> PageKey cur = []"
  then show "Next client it w = ((None, None), it\<lparr>it_done := True\<rparr>, w)"
    by (simp add: Next_def HasMore_def)
next
  assume "it_err it = None \<and> \<not> it_done it \<and> it_current it = Some cur
        \<and> length (Transfers cur) \<le> it_index it \<and> PageKey cur \<noteq> []
        \<and> client ((it_params it)\<lparr>params_PageKey := PageKey cur\<rparr>) w = (Inr page, w')
        \<and> Transfers page = []"
  then show "Next client it w =
            ((None, None),
             it\<lparr>it_params := (it_params it)\<lparr>params_PageKey := PageKey cur\<rparr>,
                it_current := Some page, it_index := 0, it_done := True\<rparr>, w')"
    by (simp add: Next_def HasMore_def fetchNext_def)
next
  assume "it_err it = None \<and> it_done it"
  then show "Next client it w = ((None, None), it, w)" by (simp add: Next_def)
qed

theorem Collect_two_pages_witness:
  "(\<exists>it'. Collect (two_pages last_page)
             (fst (GetAssetTransfersIterator (two_pages last_page) first_page_params [])) [] =
           Some (([''a'', ''b'', ''c''], None), it', [[], ''k2'']) \<and> it_done it' \<and> it_err it' = None)
   \<and> Next (two_pages empty_page) consumed_two [[]] =
       ((None, None),
        consumed_two\<lparr>it_params := first_page_params\<lparr>params_PageKey := ''k2''\<rparr>,
                     it_current := Some \<lparr>PageKey = [], Transfers = []\<rparr>, it_index := 0,
                     it_done := True\<rparr>,
        [[], ''k2''])"
proof -
  have a: "\<exists>it'. Collect (two_pages last_page)
             (fst (GetAssetTransfersIterator (two_pages last_page) first_page_params [])) [] =
           Some (([''a'', ''b'', ''c''], None), it', [[], ''k2'']) \<and> it_done it' \<and> it_err it' = None"
    using Collect_two_pages[where client="two_pages last_page" and p=first_page_params
        and ?w0.0="[]" and a="''a''" and b="''b''" and ?w1.0="[[]]" and c="''c''"
        and ?w2.0="[[], ''k2'']", THEN conjunct1]
    by (simp add: two_pages_def last_page_def first_page_params_def)
  have b: "Next (two_pages empty_page) consumed_two [[]] =
       ((None, None),
        consumed_two\<lparr>it_params := first_page_params\<lparr>params_PageKey := ''k2''\<rparr>,
                     it_current := Some \<lparr>PageKey = [], Transfers = []\<rparr>, it_index := 0,
                     it_done := True\<rparr>,
        [[], ''k2''])"
    using Collect_two_pages[where client="two_pages empty_page" and it=consumed_two
        and cur="\<lparr>PageKey = ''k2'', Transfers = [''a'', ''b'']\<rparr>" and w="[[]]"
        and page="\<lparr>PageKey = [], Transfers = []\<rparr>" and w'="[[], ''k2'']",
        THEN conjunct2, THEN conjunct2, THEN conjunct1]
    by (simp add: two_pages_def empty_page_def first_page_params_def consumed_two_def)
  show ?thesis using a b by blast
qed

text \<open>
  Claim C7. An error that \<open>Next\<close> returns is recorded in the iterator. Once an error is
  recorded, \<open>Next\<close> returns that error and changes neither the iterator nor the world,
  however often it is called. \<open>Reset\<close> clears the current page, the index, the done
  flag, the error and the page key: this is the state of a new iterator whose page key
  is empty, and the next \<open>Next\<close> starts with a fetch at the empty page key, the first
  page.
\<close>

theorem iterator_error_and_Reset:
  "(fst (Next client it w) = (x, Some e) \<longrightarrow> it_err (fst (snd (Next client it w))) = Some e)
   \<and> (it_err it = Some e \<longrightarrow>
        Next client it w = ((None, Some e), it, w)
        \<and> ((\<lambda>(it, w). snd (Next client it w)) ^^ n) (it, w) = (it, w))
   \<and> Reset it = \<lparr>it_params = (it_params it)\<lparr>params_PageKey := []\<rparr>, it_current = None,
                   it_index = 0, it_done = False, it_err = None\<rparr>
   \<and> Reset it = fst (GetAssetTransfersIterator client ((it_params it)\<lparr>params_PageKey := []\<rparr>) w)
   \<and> Next client (Reset it) w =
       (case client ((it_params it)\<lparr>params_PageKey := []\<rparr>) w of
          (Inl e', w') \<Rightarrow> ((None, Some e'), (Reset it)\<lparr>it_err := Some e'\<rparr>, w')
        | (Inr page, w') \<Rightarrow>
            Next client ((Reset it)\<lparr>it_current := Some page, it_index := 0\<rparr>) w')"
proof (intro conjI impI)
  show "Reset it = \<lparr>it_params = (it_params it)\<lparr>params_PageKey := []\<rparr>, it_current = None,
                   it_index = 0, it_done = False, it_err = None\<rparr>"
    by (simp add: Reset_def)
  then show "Reset it = fst (GetAssetTransfersIterator client ((it_params it)\<lparr>params_PageKey := []\<rparr>) w)"
    by (simp add: GetAssetTransfersIterator_def)
  show "Next client (Reset it) w =
       (case client ((it_params it)\<lparr>params_PageKey := []\<rparr>) w of
          (Inl e', w') \<Rightarrow> ((None, Some e'), (Reset it)\<lparr>it_err := Some e'\<rparr>, w')
        | (Inr page, w') \<Rightarrow>
            Next client ((Reset it)\<lparr>it_current := Some page, it_index := 0\<rparr>) w')"
  proof -
    have r: "it_err (Reset it) = None" "\<not> it_done (Reset it)" "it_current (Reset it) = None"
      "it_params (Reset it) = (it_params it)\<lparr>params_PageKey := []\<rparr>"
      by (simp_all add: Reset_def)
    show ?thesis using Next_first_fetch[OF r(1,2,3), of client w] unfolding r(4) .
  qed
qed (simp_all add: Next_recorded_error Next_recorded_error_funpow Next_error_is_recorded)

theorem iterator_error_and_Reset_witness:
  "snd (Next (two_pages failing_page) consumed_two [[]]) = (failed_iterator, [[], ''k2''])
   \<and> Next (two_pages failing_page) failed_iterator [[], ''k2''] =
       ((None, Some (HTTPError 500 ''500 Internal Server Error'' [] [])), failed_iterator,
        [[], ''k2''])
   \<and> ((\<lambda>(it, w). snd (Next (two_pages failing_page) it w)) ^^ 3) (failed_iterator, [[], ''k2'']) =
       (failed_iterator, [[], ''k2''])
   \<and> it_params (Reset failed_iterator) = first_page_params
   \<and> fst (Next (two_pages failing_page) (Reset failed_iterator) [[], ''k2'']) = (Some ''a'', None)
   \<and> snd (snd (Next (two_pages failing_page) (Reset failed_iterator) [[], ''k2''])) =
       [[], ''k2'', []]"
proof -
  let ?e = "HTTPError 500 ''500 Internal Server Error'' [] []"
  note th = iterator_error_and_Reset[where client="two_pages failing_page" and it=failed_iterator
      and e="?e" and w="[[], ''k2'']" and n=3]
  have e: "it_err failed_iterator = Some ?e" by (simp add: failed_iterator_def)
  have 1: "snd (Next (two_pages failing_page) consumed_two [[]]) = (failed_iterator, [[], ''k2''])"
    by (simp add: Next_def fetchNext_def HasMore_def two_pages_def failing_page_def
        consumed_two_def failed_iterator_def first_page_params_def)
  have 2: "Next (two_pages failing_page) failed_iterator [[], ''k2''] =
       ((None, Some ?e), failed_iterator, [[], ''k2''])"
    and 3: "((\<lambda>(it, w). snd (Next (two_pages failing_page) it w)) ^^ 3)
              (failed_iterator, [[], ''k2'']) = (failed_iterator, [[], ''k2''])"
    using th[THEN conjunct2, THEN conjunct1] e by blast+
  have 4: "it_params (Reset failed_iterator) = first_page_params"
    using th[THEN conjunct2, THEN conjunct2, THEN conjunct1] by (simp add: failed_iterator_def consumed_two_def first_page_params_def)
  have "Next (two_pages failing_page) (Reset failed_iterator) [[], ''k2''] =
          Next (two_pages failing_page)
            ((Reset failed_iterator)\<lparr>it_current := Some \<lparr>PageKey = ''k2'', Transfers = [''a'', ''b'']\<rparr>,
                                      it_index := 0\<rparr>) [[], ''k2'', []]"
    using th[THEN conjunct2, THEN conjunct2, THEN conjunct2, THEN conjunct2]
    by (simp add: two_pages_def failed_iterator_def consumed_two_def first_page_params_def)
  then have 5: "fst (Next (two_pages failing_page) (Reset failed_iterator) [[], ''k2'']) = (Some ''a'', None)"
    "snd (snd (Next (two_pages failing_page) (Reset failed_iterator) [[], ''k2''])) = [[], ''k2'', []]"
    by (simp_all add: Next_def Reset_def)
  show ?thesis using 1 2 3 4 5 by blast
qed

text \<open>
  Claim C8, as amended. Constructing an iterator makes no fetch. \<open>HasNext\<close> never
  fetches: on a new iterator it answers true and leaves iterator and world as they
  are. The first page is fetched by the first call of \<open>Next\<close>, which starts with a
  fetch at the iterator's parameters.
\<close>

theorem iterator_first_fetch:
  "snd (GetAssetTransfersIterator client p w) = w
   \<and> it_current (fst (GetAssetTransfersIterator client p w)) = None
   \<and> HasNext client (fst (GetAssetTransfersIterator client p w)) w =
       (True, fst (GetAssetTransfersIterator client p w), w)
   \<and> snd (HasNext client it w) = (it, w)
   \<and> Next client (fst (GetAssetTransfersIterator client p w)) w =
       (case client p w of
          (Inl e, w') \<Rightarrow>
            ((None, Some e), (fst (GetAssetTransfersIterator client p w))\<lparr>it_err := Some e\<rparr>, w')
        | (Inr page, w') \<Rightarrow>
            Next client
              ((fst (GetAssetTransfersIterator client p w))\<lparr>it_current := Some page,
                                                               it_index := 0\<rparr>) w')"
proof (intro conjI)
  show "Next client (fst (GetAssetTransfersIterator client p w)) w =
       (case client p w of
          (Inl e, w') \<Rightarrow>
            ((None, Some e), (fst (GetAssetTransfersIterator client p w))\<lparr>it_err := Some e\<rparr>, w')
        | (Inr page, w') \<Rightarrow>
            Next client
              ((fst (GetAssetTransfersIterator client p w))\<lparr>it_current := Some page,
                                                               it_index := 0\<rparr>) w')"
  proof -
    let ?it = "fst (GetAssetTransfersIterator client p w)"
    have r: "it_err ?it = None" "\<not> it_done ?it" "it_current ?it = None" "it_params ?it = p"
      by (simp_all add: GetAssetTransfersIterator_def)
    show ?thesis using Next_first_fetch[OF r(1,2,3), of client w] unfolding r(4) .
  qed
qed (simp_all add: GetAssetTransfersIterator_def HasNext_def split: option.splits)

text \<open>
  Claim C8 as stated fails: after \<open>HasNext\<close> as the first call on a new iterator, no
  page key has been requested and the iterator holds no page.
\<close>

theorem HasNext_fetch_counterexample:
  "snd (snd (HasNext (two_pages last_page)
               (fst (GetAssetTransfersIterator (two_pages last_page) first_page_params [])) [])) = []
   \<and> it_current (fst (snd (HasNext (two_pages last_page)
               (fst (GetAssetTransfersIterator (two_pages last_page) first_page_params [])) []))) = None"
  by (simp add: HasNext_def GetAssetTransfersIterator_def)

end
